theory Spec2Isabelle
  imports Complex_Main
begin

section \<open>JavaScript values used by the slide generator\<close>

text \<open>
  The generator is JavaScript. Its numbers are IEEE doubles; the embedding keeps the
  special values \<open>NaN\<close>, \<open>Infinity\<close> and \<open>-Infinity\<close> as constructors and takes a finite
  number as the exact rational it denotes. Arithmetic on finite numbers is exact (the
  rounding error of double arithmetic and the sign of zero are not modelled); what is
  modelled exactly is when a division or a product leaves the finite numbers, which is
  what the guards \<open>x || 0\<close> and \<open>x || 1\<close> of the source are about.
\<close>

datatype jsnum = Fin rat | PosInf | NegInf | NaN

text \<open>A field of the input object holds a number, or is missing (\<open>undefined\<close>), or \<open>null\<close>.\<close>

datatype jsval = Undefined | Null | Num jsnum

text \<open>\<open>ToNumber\<close>: \<open>undefined\<close> becomes \<open>NaN\<close>, \<open>null\<close> becomes \<open>0\<close>.\<close>

fun toNumber :: "jsval \<Rightarrow> jsnum" where
  "toNumber Undefined = NaN"
| "toNumber Null = Fin 0"
| "toNumber (Num x) = x"

text \<open>\<open>ToBoolean\<close>: \<open>undefined\<close>, \<open>null\<close>, \<open>0\<close> and \<open>NaN\<close> are falsy.\<close>

fun truthy :: "jsval \<Rightarrow> bool" where
  "truthy Undefined = False"
| "truthy Null = False"
| "truthy (Num (Fin q)) = (q \<noteq> 0)"
| "truthy (Num NaN) = False"
| "truthy (Num PosInf) = True"
| "truthy (Num NegInf) = True"

text \<open>The expression \<open>v || d\<close> with a numeric default, read as a number afterwards.\<close>

definition orNum :: "jsval \<Rightarrow> rat \<Rightarrow> jsnum" where
  "orNum v d = (if truthy v then toNumber v else Fin d)"

text \<open>The expression \<open>s || d\<close> on an optional string: a missing or empty string is falsy.\<close>

definition orStr :: "string option \<Rightarrow> string \<Rightarrow> string" where
  "orStr s d = (case s of None \<Rightarrow> d | Some x \<Rightarrow> if x = [] then d else x)"

text \<open>Division, multiplication and addition of numbers, with the IEEE special cases.\<close>

fun jsDiv :: "jsnum \<Rightarrow> jsnum \<Rightarrow> jsnum" where
  "jsDiv NaN _ = NaN"
| "jsDiv _ NaN = NaN"
| "jsDiv (Fin a) (Fin b) =
     (if b = 0 then (if a = 0 then NaN else if 0 < a then PosInf else NegInf)
      else Fin (a / b))"
| "jsDiv (Fin a) PosInf = Fin 0"
| "jsDiv (Fin a) NegInf = Fin 0"
| "jsDiv PosInf (Fin b) = (if 0 \<le> b then PosInf else NegInf)"
| "jsDiv NegInf (Fin b) = (if 0 \<le> b then NegInf else PosInf)"
| "jsDiv PosInf PosInf = NaN"
| "jsDiv PosInf NegInf = NaN"
| "jsDiv NegInf PosInf = NaN"
| "jsDiv NegInf NegInf = NaN"

fun jsMul :: "jsnum \<Rightarrow> jsnum \<Rightarrow> jsnum" where
  "jsMul NaN _ = NaN"
| "jsMul _ NaN = NaN"
| "jsMul (Fin a) (Fin b) = Fin (a * b)"
| "jsMul (Fin a) PosInf = (if a = 0 then NaN else if 0 < a then PosInf else NegInf)"
| "jsMul (Fin a) NegInf = (if a = 0 then NaN else if 0 < a then NegInf else PosInf)"
| "jsMul PosInf (Fin b) = (if b = 0 then NaN else if 0 < b then PosInf else NegInf)"
| "jsMul NegInf (Fin b) = (if b = 0 then NaN else if 0 < b then NegInf else PosInf)"
| "jsMul PosInf PosInf = PosInf"
| "jsMul PosInf NegInf = NegInf"
| "jsMul NegInf PosInf = NegInf"
| "jsMul NegInf NegInf = PosInf"

fun jsAdd :: "jsnum \<Rightarrow> jsnum \<Rightarrow> jsnum" where
  "jsAdd NaN _ = NaN"
| "jsAdd _ NaN = NaN"
| "jsAdd (Fin a) (Fin b) = Fin (a + b)"
| "jsAdd (Fin a) PosInf = PosInf"
| "jsAdd (Fin a) NegInf = NegInf"
| "jsAdd PosInf (Fin b) = PosInf"
| "jsAdd NegInf (Fin b) = NegInf"
| "jsAdd PosInf PosInf = PosInf"
| "jsAdd PosInf NegInf = NaN"
| "jsAdd NegInf PosInf = NaN"
| "jsAdd NegInf NegInf = NegInf"

text \<open>\<open>Math.floor\<close>.\<close>

fun mathFloor :: "jsnum \<Rightarrow> jsnum" where
  "mathFloor (Fin a) = Fin (of_int \<lfloor>a\<rfloor>)"
| "mathFloor x = x"

subsection \<open>Printing numbers\<close>

definition digitChar :: "nat \<Rightarrow> char" where
  "digitChar n = ''0123456789'' ! (n mod 10)"

fun showNat :: "nat \<Rightarrow> string" where
  "showNat n = (if n < 10 then [digitChar n] else showNat (n div 10) @ [digitChar n])"

declare showNat.simps [simp del]

definition showInt :: "int \<Rightarrow> string" where
  "showInt k = (if k < 0 then ''-'' @ showNat (nat (- k)) else showNat (nat k))"

text \<open>Three digits with leading zeros, for the groups after the first.\<close>

definition pad3 :: "nat \<Rightarrow> string" where
  "pad3 n = [digitChar (n div 100), digitChar (n div 10), digitChar n]"

text \<open>The \<open>en-US\<close> grouping of an integer: a comma before every group of three digits.\<close>

fun group3 :: "nat \<Rightarrow> string" where
  "group3 n = (if n < 1000 then showNat n else group3 (n div 1000) @ '','' @ pad3 (n mod 1000))"

declare group3.simps [simp del]

text \<open>
  Rounding a non-negative number to an integer, ties away from zero: the default
  rounding mode (\<open>halfExpand\<close>) of \<open>Intl.NumberFormat\<close>, and the tie rule of \<open>toFixed\<close>
  (``pick the larger \<open>n\<close>'').
\<close>

definition roundHalfExpand :: "rat \<Rightarrow> nat" where
  "roundHalfExpand a = nat \<lfloor>a + 1 / 2\<rfloor>"

text \<open>The UTF-8 bytes of the infinity sign that \<open>Intl.NumberFormat\<close> prints.\<close>

definition infinitySign :: string where
  "infinitySign = [CHR 0xE2, CHR 0x88, CHR 0x9E]"

text \<open>
  \<open>new Intl.NumberFormat('en-US', {style: 'currency', currency: 'USD',
  maximumFractionDigits: 0}).format(x)\<close>: whole dollars, grouped; the sign is that of the
  number before rounding.
\<close>

fun intlCurrency :: "jsnum \<Rightarrow> string" where
  "intlCurrency (Fin q) = (if q < 0 then ''-$'' else ''$'') @ group3 (roundHalfExpand \<bar>q\<bar>)"
| "intlCurrency PosInf = ''$'' @ infinitySign"
| "intlCurrency NegInf = ''-$'' @ infinitySign"
| "intlCurrency NaN = ''$NaN''"

text \<open>Dropping the trailing zeros of a fraction.\<close>

definition stripZeros :: "string \<Rightarrow> string" where
  "stripZeros s = rev (dropWhile (\<lambda>c. c = CHR ''0'') (rev s))"

text \<open>
  \<open>new Intl.NumberFormat('en-US').format(x)\<close>: at most three fraction digits, trailing
  zeros dropped, the integer part grouped. The rounding here is that of the exact value;
  the runtime rounds the shortest decimal that reads back as the double, which differs
  from it at a tie of the fourth fraction digit.
\<close>

fun intlDecimal :: "jsnum \<Rightarrow> string" where
  "intlDecimal (Fin q) =
     (let n = roundHalfExpand (\<bar>q\<bar> * 1000);
          frac = stripZeros (pad3 (n mod 1000))
      in (if q < 0 then ''-'' else '''') @ group3 (n div 1000)
         @ (if frac = [] then [] else ''.'' @ frac))"
| "intlDecimal PosInf = infinitySign"
| "intlDecimal NegInf = ''-'' @ infinitySign"
| "intlDecimal NaN = ''NaN''"

text \<open>
  \<open>x.toFixed(1)\<close>. From \<open>10^21\<close> on, \<open>toFixed\<close> returns \<open>Number.prototype.toString\<close> of the
  number, the shortest digits that read back as the same double in exponent notation;
  that printer belongs to the runtime and is the parameter \<open>expStr\<close>.
\<close>

fun toFixed1 :: "(rat \<Rightarrow> string) \<Rightarrow> jsnum \<Rightarrow> string" where
  "toFixed1 expStr (Fin q) =
     (if q < 0 then ''-'' else '''')
     @ (if 10 ^ 21 \<le> \<bar>q\<bar> then expStr \<bar>q\<bar>
        else (let n = roundHalfExpand (\<bar>q\<bar> * 10)
              in showNat (n div 10) @ ''.'' @ [digitChar n]))"
| "toFixed1 expStr PosInf = ''Infinity''"
| "toFixed1 expStr NegInf = ''-Infinity''"
| "toFixed1 expStr NaN = ''NaN''"

section \<open>DataProcessor: the formatting helpers\<close>

text \<open>\<open>formatCurrency(value)\<close> formats \<open>value || 0\<close>.\<close>

definition formatCurrency :: "jsval \<Rightarrow> string" where
  "formatCurrency v = intlCurrency (orNum v 0)"

text \<open>\<open>formatNumber(value)\<close> formats \<open>value || 0\<close>.\<close>

definition formatNumber :: "jsval \<Rightarrow> string" where
  "formatNumber v = intlDecimal (orNum v 0)"

text \<open>\<open>formatPercentage(value)\<close> is \<open>(value || 0).toFixed(1)\<close> followed by a percent sign.\<close>

definition formatPercentage :: "(rat \<Rightarrow> string) \<Rightarrow> jsval \<Rightarrow> string" where
  "formatPercentage expStr v = toFixed1 expStr (orNum v 0) @ ''%''"

section \<open>The input object and the normalized view\<close>

text \<open>
  The runtime pieces the source calls but does not define: the sequence of results of
  \<open>Math.random()\<close> (each in \<open>[0, 1)\<close>), numbered in call order, and the exponent-notation
  printer of \<open>toFixed\<close>.
\<close>

record runtime =
  mathRandom :: "nat \<Rightarrow> rat"
  numberToString :: "rat \<Rightarrow> string"

text \<open>An element of \<open>topSuppliers\<close> or \<open>topBuyers\<close>.\<close>

record company =
  name :: string
  country :: string
  "value" :: jsval

text \<open>An element of \<open>importingCountries\<close> or \<open>exportingCountries\<close>.\<close>

record countryRow =
  country :: string
  "value" :: jsval
  share :: jsval
  shipments :: jsval

record pricePoint =
  date :: string
  price :: jsval

record countryCount =
  country :: string
  count :: jsval

text \<open>The product data handed to the constructor; a missing field is \<open>None\<close> or \<open>Undefined\<close>.\<close>

record productData =
  name :: "string option"
  description :: "string option"
  hsCode :: "string option"
  category :: "string option"
  totalRecords :: jsval
  totalValue :: jsval
  avgPrice :: jsval
  priceVolatility :: jsval
  uniqueSuppliers :: jsval
  uniqueBuyers :: jsval
  marketGrowth :: jsval
  supplierConcentration :: jsval
  buyerConcentration :: jsval
  minPrice :: jsval
  maxPrice :: jsval
  dateRange :: "string option"
  topImportCountry :: "countryCount option"
  topExportCountry :: "countryCount option"
  topSuppliers :: "company list option"
  topBuyers :: "company list option"
  importingCountries :: "countryRow list option"
  exportingCountries :: "countryRow list option"
  priceHistory :: "pricePoint list option"

record productInfo =
  name :: string
  description :: string
  hsCode :: string
  category :: string
  averagePrice :: string

record marketData =
  totalRecords :: string
  totalValue :: string
  avgPrice :: string
  avgTransactionValue :: string
  priceVolatility :: string
  uniqueSuppliers :: string
  uniqueBuyers :: string
  supplierDiversity :: string
  buyerDiversity :: string
  marketGrowth :: string
  topImportCountry :: countryCount
  topExportCountry :: countryCount
  dateRange :: string

record rankedCountry =
  rank :: int
  country :: string
  "value" :: string
  share :: string
  rawValue :: jsval
  rawShare :: jsval

record geography =
  importingCountries :: "rankedCountry list"
  exportingCountries :: "rankedCountry list"

record rankedCompany =
  rank :: int
  name :: string
  country :: string
  "value" :: string
  share :: string
  rawValue :: jsval
  rawShare :: jsnum

text \<open>
  The object built by \<open>groupSuppliersByCountry\<close>, as a finite map from country to the
  companies pushed under it (the enumeration order of its keys is not modelled).
\<close>

type_synonym grouped = "string \<Rightarrow> company list option"

record supplierData =
  topSuppliers :: "rankedCompany list"
  suppliersByCountry :: grouped

record buyerData =
  topBuyers :: "rankedCompany list"
  buyersByCountry :: grouped

record priceRange =
  min' :: string
  max' :: string

record pricedPoint =
  date :: string
  price :: string
  rawPrice :: jsval

record countryPrice =
  country :: string
  avgPrice :: string
  rawPrice :: jsnum

record pricingData =
  currentPrice :: string
  priceRange :: priceRange
  volatility :: string
  priceHistory :: "pricedPoint list"
  priceByCountry :: "countryPrice list"

record shipmentRecord =
  id' :: int
  date :: string
  supplier :: string
  supplierCountry :: string
  buyer :: string
  buyerCountry :: string
  quantity :: jsnum
  unitPrice :: string
  totalValue :: string
  hsCode :: string
  portOfLoading :: "string option"
  portOfDischarge :: "string option"

record shipmentData =
  totalShipments :: nat
  shipmentRecords :: "shipmentRecord list"
  shipmentsPerSlide :: nat
  totalSlides :: nat

record processedData =
  product' :: productInfo
  market :: marketData
  geography :: geography
  suppliers :: supplierData
  buyers :: buyerData
  pricing :: pricingData
  shipments :: shipmentData

text \<open>What the source throws: \<open>new Error(message)\<close>, and the runtime's \<open>TypeError\<close>.\<close>

datatype error = Error string | TypeError string

section \<open>The formatting helpers on a value of any type\<close>

text \<open>
  The processor hands the helpers the fields of the input object, read above as numbers.
  The helpers themselves test no type. The values modelled here are a field value, a
  string, a boolean and a symbol; objects and big integers are left out.
\<close>

datatype jsarg = Field jsval | Str string | Bool bool | Symbol

text \<open>\<open>ToBoolean\<close>: the empty string and \<open>false\<close> are falsy, a symbol is truthy.\<close>

fun truthyArg :: "jsarg \<Rightarrow> bool" where
  "truthyArg (Field v) = truthy v"
| "truthyArg (Str s) = (s \<noteq> [])"
| "truthyArg (Bool b) = b"
| "truthyArg Symbol = True"

text \<open>\<open>value || 0\<close>.\<close>

definition orZero :: "jsarg \<Rightarrow> jsarg" where
  "orZero a = (if truthyArg a then a else Field (Num (Fin 0)))"

text \<open>
  The conversion to a number that \<open>Intl.NumberFormat.prototype.format\<close> applies to its
  argument: a string is read by the runtime (\<open>stringToNumber\<close>, a parameter), a boolean
  is \<open>0\<close> or \<open>1\<close>, and a symbol is refused with a \<open>TypeError\<close>.
\<close>

fun toNumeric :: "(string \<Rightarrow> jsnum) \<Rightarrow> jsarg \<Rightarrow> error + jsnum" where
  "toNumeric stringToNumber (Field v) = Inr (toNumber v)"
| "toNumeric stringToNumber (Str s) = Inr (stringToNumber s)"
| "toNumeric stringToNumber (Bool b) = Inr (Fin (if b then 1 else 0))"
| "toNumeric stringToNumber Symbol =
     Inl (TypeError ''Cannot convert a Symbol value to a number'')"

text \<open>\<open>formatCurrency(value)\<close> and \<open>formatNumber(value)\<close> on any value.\<close>

definition formatCurrencyAny :: "(string \<Rightarrow> jsnum) \<Rightarrow> jsarg \<Rightarrow> error + string" where
  "formatCurrencyAny stringToNumber a =
     (case toNumeric stringToNumber (orZero a) of
        Inl e \<Rightarrow> Inl e
      | Inr x \<Rightarrow> Inr (intlCurrency x))"

definition formatNumberAny :: "(string \<Rightarrow> jsnum) \<Rightarrow> jsarg \<Rightarrow> error + string" where
  "formatNumberAny stringToNumber a =
     (case toNumeric stringToNumber (orZero a) of
        Inl e \<Rightarrow> Inl e
      | Inr x \<Rightarrow> Inr (intlDecimal x))"

text \<open>
  \<open>formatPercentage(value)\<close> on any value: \<open>(value || 0).toFixed(1)\<close> calls a method that
  only a number has, so on a truthy string, boolean or symbol the call is a
  \<open>TypeError\<close>.
\<close>

definition formatPercentageAny :: "(rat \<Rightarrow> string) \<Rightarrow> jsarg \<Rightarrow> error + string" where
  "formatPercentageAny expStr a =
     (case orZero a of
        Field (Num x) \<Rightarrow> Inr (toFixed1 expStr x @ ''%'')
      | _ \<Rightarrow> Inl (TypeError ''(value || 0).toFixed is not a function''))"

section \<open>DataProcessor\<close>

text \<open>\<open>array.map((x, index) => f(x, index))\<close>.\<close>

definition mapIndex :: "('a \<Rightarrow> nat \<Rightarrow> 'b) \<Rightarrow> 'a list \<Rightarrow> 'b list" where
  "mapIndex f xs = map (\<lambda>(i, x). f x i) (zip [0..<length xs] xs)"

text \<open>\<open>list || []\<close>.\<close>

definition orEmpty :: "'a list option \<Rightarrow> 'a list" where
  "orEmpty l = (case l of None \<Rightarrow> [] | Some xs \<Rightarrow> xs)"

definition processProductInfo :: "productData \<Rightarrow> productInfo" where
  "processProductInfo pd =
     \<lparr> productInfo.name = orStr (productData.name pd) ''Unknown Product'',
       productInfo.description =
         orStr (productData.description pd) ''Product description not available'',
       productInfo.hsCode = orStr (productData.hsCode pd) ''N/A'',
       productInfo.category = orStr (productData.category pd) ''General'',
       averagePrice = formatCurrency (Num (orNum (productData.avgPrice pd) 0)) \<rparr>"

definition unknownCountry :: countryCount where
  "unknownCountry = \<lparr> countryCount.country = ''Unknown'', count = Num (Fin 0) \<rparr>"

definition processMarketData :: "runtime \<Rightarrow> productData \<Rightarrow> marketData" where
  "processMarketData rt data =
     \<lparr> marketData.totalRecords = formatNumber (Num (orNum (productData.totalRecords data) 0)),
       marketData.totalValue = formatCurrency (Num (orNum (productData.totalValue data) 0)),
       marketData.avgPrice = formatCurrency (Num (orNum (productData.avgPrice data) 0)),
       avgTransactionValue =
         formatCurrency (Num (jsDiv (orNum (productData.totalValue data) 0)
                                    (orNum (productData.totalRecords data) 1))),
       marketData.priceVolatility =
         formatPercentage (numberToString rt) (Num (orNum (productData.priceVolatility data) 0)),
       marketData.uniqueSuppliers =
         formatNumber (Num (orNum (productData.uniqueSuppliers data) 0)),
       marketData.uniqueBuyers = formatNumber (Num (orNum (productData.uniqueBuyers data) 0)),
       supplierDiversity =
         formatPercentage (numberToString rt)
           (Num (orNum (productData.supplierConcentration data) 0)),
       buyerDiversity =
         formatPercentage (numberToString rt)
           (Num (orNum (productData.buyerConcentration data) 0)),
       marketData.marketGrowth =
         formatPercentage (numberToString rt) (Num (orNum (productData.marketGrowth data) 0)),
       marketData.topImportCountry =
         (case productData.topImportCountry data of None \<Rightarrow> unknownCountry | Some c \<Rightarrow> c),
       marketData.topExportCountry =
         (case productData.topExportCountry data of None \<Rightarrow> unknownCountry | Some c \<Rightarrow> c),
       marketData.dateRange = orStr (productData.dateRange data) ''N/A'' \<rparr>"

text \<open>The callback of both maps in \<open>processGeographicData\<close>.\<close>

definition rankCountry :: "runtime \<Rightarrow> countryRow \<Rightarrow> nat \<Rightarrow> rankedCountry" where
  "rankCountry rt c index =
     \<lparr> rankedCountry.rank = int index + 1,
       rankedCountry.country = countryRow.country c,
       rankedCountry.value = formatCurrency (countryRow.value c),
       rankedCountry.share = formatPercentage (numberToString rt) (countryRow.share c),
       rankedCountry.rawValue = countryRow.value c,
       rankedCountry.rawShare = countryRow.share c \<rparr>"

definition processGeographicData :: "runtime \<Rightarrow> productData \<Rightarrow> geography" where
  "processGeographicData rt pd =
     \<lparr> geography.importingCountries =
         mapIndex (rankCountry rt) (orEmpty (productData.importingCountries pd)),
       geography.exportingCountries =
         mapIndex (rankCountry rt) (orEmpty (productData.exportingCountries pd)) \<rparr>"

text \<open>
  The names every object inherits from \<open>Object.prototype\<close>. Under such a key
  \<open>grouped[key]\<close> is already truthy in the empty object, and is not an array.
\<close>

definition objectPrototypeKeys :: "string list" where
  "objectPrototypeKeys =
     [''constructor'', ''__defineGetter__'', ''__defineSetter__'', ''hasOwnProperty'',
      ''__lookupGetter__'', ''__lookupSetter__'', ''isPrototypeOf'',
      ''propertyIsEnumerable'', ''toString'', ''valueOf'', ''__proto__'',
      ''toLocaleString'']"

text \<open>
  The \<open>forEach\<close> loop of \<open>groupSuppliersByCountry\<close> and \<open>groupBuyersByCountry\<close>, the
  object passed along; \<open>var\<close> is the name of the loop variable, which the message of the
  runtime's \<open>TypeError\<close> quotes. Calling \<open>push\<close> on an inherited member is that error.
\<close>

fun groupLoop :: "string \<Rightarrow> company list \<Rightarrow> grouped \<Rightarrow> error + grouped" where
  "groupLoop var [] grouped = Inr grouped"
| "groupLoop var (s # rest) grouped =
     (if company.country s \<in> set objectPrototypeKeys
      then Inl (TypeError (''grouped['' @ var @ ''.country].push is not a function''))
      else groupLoop var rest
             (grouped (company.country s \<mapsto>
                (case grouped (company.country s) of None \<Rightarrow> [] | Some l \<Rightarrow> l) @ [s])))"

definition groupSuppliersByCountry :: "company list \<Rightarrow> error + grouped" where
  "groupSuppliersByCountry sups = groupLoop ''supplier'' sups Map.empty"

definition groupBuyersByCountry :: "company list \<Rightarrow> error + grouped" where
  "groupBuyersByCountry buys = groupLoop ''buyer'' buys Map.empty"

text \<open>
  The callback of the maps in \<open>processSupplierData\<close> and \<open>processBuyerData\<close>: the share
  is \<open>(value / totalValue) * 100\<close>, with no guard on \<open>totalValue\<close>.
\<close>

definition rankCompany :: "runtime \<Rightarrow> productData \<Rightarrow> company \<Rightarrow> nat \<Rightarrow> rankedCompany" where
  "rankCompany rt pd s index =
     \<lparr> rankedCompany.rank = int index + 1,
       rankedCompany.name = company.name s,
       rankedCompany.country = company.country s,
       rankedCompany.value = formatCurrency (company.value s),
       rankedCompany.share =
         formatPercentage (numberToString rt)
           (Num (jsMul (jsDiv (toNumber (company.value s))
                              (toNumber (productData.totalValue pd))) (Fin 100))),
       rankedCompany.rawValue = company.value s,
       rankedCompany.rawShare =
         jsMul (jsDiv (toNumber (company.value s))
                      (toNumber (productData.totalValue pd))) (Fin 100) \<rparr>"

definition processSupplierData :: "runtime \<Rightarrow> productData \<Rightarrow> error + supplierData" where
  "processSupplierData rt pd =
     (let sups = orEmpty (productData.topSuppliers pd);
          ranked = mapIndex (rankCompany rt pd) sups
      in case groupSuppliersByCountry sups of
           Inl e \<Rightarrow> Inl e
         | Inr g \<Rightarrow> Inr \<lparr> supplierData.topSuppliers = ranked, suppliersByCountry = g \<rparr>)"

definition processBuyerData :: "runtime \<Rightarrow> productData \<Rightarrow> error + buyerData" where
  "processBuyerData rt pd =
     (let buys = orEmpty (productData.topBuyers pd);
          ranked = mapIndex (rankCompany rt pd) buys
      in case groupBuyersByCountry buys of
           Inl e \<Rightarrow> Inl e
         | Inr g \<Rightarrow> Inr \<lparr> buyerData.topBuyers = ranked, buyersByCountry = g \<rparr>)"

definition calculatePriceByCountry :: "productData \<Rightarrow> countryPrice list" where
  "calculatePriceByCountry pd =
     map (\<lambda>c. \<lparr> countryPrice.country = countryRow.country c,
                countryPrice.avgPrice =
                  formatCurrency (Num (jsDiv (toNumber (countryRow.value c))
                                             (orNum (countryRow.shipments c) 1))),
                countryPrice.rawPrice =
                  jsDiv (toNumber (countryRow.value c)) (orNum (countryRow.shipments c) 1) \<rparr>)
         (orEmpty (productData.importingCountries pd))"

definition processPricingData :: "runtime \<Rightarrow> productData \<Rightarrow> pricingData" where
  "processPricingData rt pd =
     \<lparr> currentPrice = formatCurrency (Num (orNum (productData.avgPrice pd) 0)),
       pricingData.priceRange =
         \<lparr> priceRange.min' = formatCurrency (Num (orNum (productData.minPrice pd) 0)),
           priceRange.max' = formatCurrency (Num (orNum (productData.maxPrice pd) 0)) \<rparr>,
       volatility =
         formatPercentage (numberToString rt) (Num (orNum (productData.priceVolatility pd) 0)),
       pricingData.priceHistory =
         map (\<lambda>item. \<lparr> pricedPoint.date = pricePoint.date item,
                       pricedPoint.price = formatCurrency (pricePoint.price item),
                       pricedPoint.rawPrice = pricePoint.price item \<rparr>)
             (orEmpty (productData.priceHistory pd)),
       priceByCountry = calculatePriceByCountry pd \<rparr>"

subsection \<open>The generated shipment records\<close>

definition pad2 :: "nat \<Rightarrow> string" where
  "pad2 n = [digitChar (n div 10), digitChar n]"

text \<open>Walking the months of a year: the month and the day within it of a day of the year.\<close>

fun monthDay :: "nat list \<Rightarrow> nat \<Rightarrow> nat \<Rightarrow> nat \<times> nat" where
  "monthDay [] m d = (m, d)"
| "monthDay (l # ls) m d = (if d < l then (m, d) else monthDay ls (Suc m) (d - l))"

text \<open>
  \<open>generateRandomDate\<close>: a time between the midnights (UTC) of 2023-01-01 and 2023-12-31,
  364 days apart, printed as its ISO date. With \<open>r\<close> in \<open>[0, 1)\<close> the day of the year
  is \<open>floor (r * 364)\<close>. The product is exact here, so the last day, 2023-12-31, is
  not reached; the runtime's double product can round up to it for \<open>r\<close> next to 1.
\<close>

definition generateRandomDate :: "rat \<Rightarrow> string" where
  "generateRandomDate r =
     (let (m, d) = monthDay [31, 28, 31, 30, 31, 30, 31, 31, 30, 31, 30, 31] 1
                     (nat \<lfloor>r * 364\<rfloor>)
      in ''2023-'' @ pad2 m @ ''-'' @ pad2 (Suc d))"

text \<open>\<open>generateRandomQuantity\<close>: \<open>Math.floor(Math.random() * 10000) + 100\<close>.\<close>

definition generateRandomQuantity :: "rat \<Rightarrow> jsnum" where
  "generateRandomQuantity r = jsAdd (mathFloor (jsMul (Fin r) (Fin 10000))) (Fin 100)"

text \<open>\<open>generateRandomPrice\<close>: the average price (or 100) with up to 15 percent either way.\<close>

definition generateRandomPrice :: "productData \<Rightarrow> rat \<Rightarrow> jsnum" where
  "generateRandomPrice pd r =
     (let basePrice = orNum (productData.avgPrice pd) 100;
          variation = jsMul basePrice (Fin (3 / 10))
      in jsAdd basePrice (jsMul (Fin (r - 1 / 2)) variation))"

text \<open>
  \<open>generateRandomValue\<close> calls \<open>generateRandomQuantity\<close> and \<open>generateRandomPrice\<close>
  again: it takes two draws of its own.
\<close>

definition generateRandomValue :: "productData \<Rightarrow> rat \<Rightarrow> rat \<Rightarrow> jsnum" where
  "generateRandomValue pd r1 r2 = jsMul (generateRandomQuantity r1) (generateRandomPrice pd r2)"

definition ports :: "(string \<times> string list) list" where
  "ports =
     [(''USA'', [''New York'', ''Los Angeles'', ''Miami'', ''Houston'']),
      (''India'', [''Mumbai'', ''Chennai'', ''Kolkata'', ''Cochin'']),
      (''China'', [''Shanghai'', ''Shenzhen'', ''Qingdao'', ''Tianjin'']),
      (''Germany'', [''Hamburg'', ''Bremen'', ''Bremerhaven'']),
      (''UK'', [''London'', ''Southampton'', ''Liverpool'']),
      (''France'', [''Le Havre'', ''Marseille'', ''Dunkirk''])]"

text \<open>
  \<open>generateRandomPort\<close>: \<open>ports[country] || ['Unknown Port']\<close>, indexed by
  \<open>Math.floor(Math.random() * length)\<close>. Under a name inherited from \<open>Object.prototype\<close>
  the lookup finds a member that is no array, and the indexing gives \<open>undefined\<close>.
\<close>

definition generateRandomPort :: "string \<Rightarrow> rat \<Rightarrow> string option" where
  "generateRandomPort c r =
     (if c \<in> set objectPrototypeKeys then None
      else (let countryPorts = (case map_of ports c of None \<Rightarrow> [''Unknown Port''] | Some l \<Rightarrow> l);
                k = \<lfloor>r * of_nat (length countryPorts)\<rfloor>
            in if 0 \<le> k \<and> nat k < length countryPorts then Some (countryPorts ! nat k)
               else None))"

text \<open>\<open>list[i % list.length] || fallback\<close>: on the empty list the index is \<open>NaN\<close>.\<close>

definition pick :: "'a list \<Rightarrow> nat \<Rightarrow> 'a \<Rightarrow> 'a" where
  "pick xs i fallback = (if xs = [] then fallback else xs ! (i mod length xs))"

definition unknownSupplier :: company where
  "unknownSupplier =
     \<lparr> company.name = ''Unknown Supplier'', company.country = ''Unknown'',
       company.value = Undefined \<rparr>"

definition unknownBuyer :: company where
  "unknownBuyer =
     \<lparr> company.name = ''Unknown Buyer'', company.country = ''Unknown'',
       company.value = Undefined \<rparr>"

definition unknownRow :: countryRow where
  "unknownRow =
     \<lparr> countryRow.country = ''Unknown'', countryRow.value = Undefined,
       countryRow.share = Undefined, countryRow.shipments = Undefined \<rparr>"

text \<open>
  The body of the loop of \<open>generateShipmentRecords\<close> at index \<open>i\<close>. The record takes
  seven draws, in the order of its fields: date, quantity, unit price, the two of the
  total value, and the two ports. The importing country \<open>c\<close> is looked up as in the
  source, and as in the source no field of the record uses it.
\<close>

definition shipmentRecordAt :: "runtime \<Rightarrow> productData \<Rightarrow> nat \<Rightarrow> shipmentRecord" where
  "shipmentRecordAt rt pd i =
     (let s = pick (orEmpty (productData.topSuppliers pd)) i unknownSupplier;
          b = pick (orEmpty (productData.topBuyers pd)) i unknownBuyer;
          c = pick (orEmpty (productData.importingCountries pd)) i unknownRow
      in \<lparr> id' = int i + 1,
           shipmentRecord.date = generateRandomDate (mathRandom rt (7 * i)),
           supplier = company.name s,
           supplierCountry = company.country s,
           buyer = company.name b,
           buyerCountry = company.country b,
           quantity = generateRandomQuantity (mathRandom rt (7 * i + 1)),
           unitPrice = formatCurrency (Num (generateRandomPrice pd (mathRandom rt (7 * i + 2)))),
           shipmentRecord.totalValue =
             formatCurrency
               (Num (generateRandomValue pd (mathRandom rt (7 * i + 3)) (mathRandom rt (7 * i + 4)))),
           shipmentRecord.hsCode = orStr (productData.hsCode pd) ''N/A'',
           portOfLoading = generateRandomPort (company.country s) (mathRandom rt (7 * i + 5)),
           portOfDischarge = generateRandomPort (company.country b) (mathRandom rt (7 * i + 6)) \<rparr>)"

text \<open>\<open>generateShipmentRecords\<close>: the loop \<open>for (let i = 0; i < 2340; i++)\<close>.\<close>

definition generateShipmentRecords :: "runtime \<Rightarrow> productData \<Rightarrow> shipmentRecord list" where
  "generateShipmentRecords rt pd = map (shipmentRecordAt rt pd) [0..<2340]"

definition processShipmentData :: "runtime \<Rightarrow> productData \<Rightarrow> shipmentData" where
  "processShipmentData rt pd =
     (let recs = generateShipmentRecords rt pd
      in \<lparr> totalShipments = length recs,
           shipmentRecords = recs,
           shipmentsPerSlide = 10,
           totalSlides = nat \<lceil>(of_nat (length recs) :: rat) / 10\<rceil> \<rparr>)"

text \<open>
  \<open>processAllData\<close>, the fields in the order the source evaluates them; the two grouping
  loops are the only calls that can throw.
\<close>

definition processAllData :: "runtime \<Rightarrow> productData \<Rightarrow> error + processedData" where
  "processAllData rt pd =
     (case processSupplierData rt pd of
        Inl e \<Rightarrow> Inl e
      | Inr s \<Rightarrow>
          (case processBuyerData rt pd of
             Inl e \<Rightarrow> Inl e
           | Inr b \<Rightarrow>
               Inr \<lparr> product' = processProductInfo pd,
                     market = processMarketData rt pd,
                     processedData.geography = processGeographicData rt pd,
                     suppliers = s,
                     buyers = b,
                     pricing = processPricingData rt pd,
                     shipments = processShipmentData rt pd \<rparr>))"

text \<open>\<open>new DataProcessor(productData).getProcessedData()\<close>.\<close>

definition DataProcessor :: "runtime \<Rightarrow> productData \<Rightarrow> error + processedData" where
  "DataProcessor rt pd = processAllData rt pd"

subsection \<open>Sample data\<close>

text \<open>
  The scalar fields of \<open>data/sample-product-data.js\<close> (the description shortened) and
  the first three entries of each of its lists.
\<close>

definition sampleProductData :: productData where
  "sampleProductData =
     \<lparr> productData.name = Some ''Paclitaxel'',
       productData.description = Some ''Paclitaxel is a chemotherapy medication'',
       productData.hsCode = Some ''2932999090'',
       productData.category = Some ''Pharmaceutical Active Ingredient'',
       productData.totalRecords = Num (Fin 28456),
       productData.totalValue = Num (Fin 1245800000),
       productData.avgPrice = Num (Fin (4375052 / 100)),
       productData.priceVolatility = Num (Fin (1873 / 10)),
       productData.uniqueSuppliers = Num (Fin 87),
       productData.uniqueBuyers = Num (Fin 142),
       productData.marketGrowth = Num (Fin (125 / 10)),
       supplierConcentration = Num (Fin (3 / 10)),
       buyerConcentration = Num (Fin (4 / 10)),
       minPrice = Num (Fin (3258075 / 100)),
       maxPrice = Num (Fin (6125030 / 100)),
       productData.dateRange = Some ''Jan 2023 - Dec 2023'',
       productData.topImportCountry =
         Some \<lparr> countryCount.country = ''United States'', count = Num (Fin 5872) \<rparr>,
       productData.topExportCountry =
         Some \<lparr> countryCount.country = ''India'', count = Num (Fin 6543) \<rparr>,
       productData.topSuppliers = Some
         [\<lparr> company.name = ''Bristol-Myers Squibb'', company.country = ''USA'',
            company.value = Num (Fin 245000000) \<rparr>,
          \<lparr> company.name = ''Pfizer Inc'', company.country = ''USA'',
            company.value = Num (Fin 187000000) \<rparr>,
          \<lparr> company.name = ''Cipla Ltd'', company.country = ''India'',
            company.value = Num (Fin 156000000) \<rparr>],
       productData.topBuyers = Some
         [\<lparr> company.name = ''Memorial Sloan Kettering'', company.country = ''USA'',
            company.value = Num (Fin 187000000) \<rparr>,
          \<lparr> company.name = ''Mayo Clinic'', company.country = ''USA'',
            company.value = Num (Fin 165000000) \<rparr>,
          \<lparr> company.name = ''NHS England'', company.country = ''UK'',
            company.value = Num (Fin 143000000) \<rparr>],
       productData.importingCountries = Some
         [\<lparr> countryRow.country = ''United States'', countryRow.value = Num (Fin 325000000),
            countryRow.share = Num (Fin (261 / 10)), shipments = Num (Fin 5872) \<rparr>,
          \<lparr> countryRow.country = ''Germany'', countryRow.value = Num (Fin 187000000),
            countryRow.share = Num (Fin 15), shipments = Num (Fin 3245) \<rparr>,
          \<lparr> countryRow.country = ''United Kingdom'', countryRow.value = Num (Fin 156000000),
            countryRow.share = Num (Fin (125 / 10)), shipments = Num (Fin 2876) \<rparr>],
       productData.exportingCountries = Some
         [\<lparr> countryRow.country = ''India'', countryRow.value = Num (Fin 365000000),
            countryRow.share = Num (Fin (293 / 10)), shipments = Num (Fin 6543) \<rparr>,
          \<lparr> countryRow.country = ''United States'', countryRow.value = Num (Fin 287000000),
            countryRow.share = Num (Fin 23), shipments = Num (Fin 5234) \<rparr>,
          \<lparr> countryRow.country = ''Israel'', countryRow.value = Num (Fin 176000000),
            countryRow.share = Num (Fin (141 / 10)), shipments = Num (Fin 3187) \<rparr>],
       productData.priceHistory = Some
         [\<lparr> pricePoint.date = ''2023-01'', pricePoint.price = Num (Fin (4125075 / 100)) \<rparr>,
          \<lparr> pricePoint.date = ''2023-02'', pricePoint.price = Num (Fin (4187530 / 100)) \<rparr>,
          \<lparr> pricePoint.date = ''2023-03'', pricePoint.price = Num (Fin (4235045 / 100)) \<rparr>] \<rparr>"

text \<open>
  A run of the random generator: \<open>0\<close> at every draw of a record's quantity, \<open>1/2\<close> at
  every other draw. The exponent printer is never reached on the sample data.
\<close>

definition sampleRuntime :: runtime where
  "sampleRuntime =
     \<lparr> mathRandom = (\<lambda>n. if n mod 7 = 1 then 0 else 1 / 2),
       numberToString = (\<lambda>q. ''1e+21'') \<rparr>"

text \<open>A runtime reading of strings as numbers for the sample runs; it reads every string as \<open>NaN\<close>.\<close>

definition sampleStringToNumber :: "string \<Rightarrow> jsnum" where
  "sampleStringToNumber s = NaN"

subsection \<open>Degenerate inputs\<close>

text \<open>The sample data with a total value of zero.\<close>

definition zeroTotalData :: productData where
  "zeroTotalData = sampleProductData \<lparr> productData.totalValue := Num (Fin 0) \<rparr>"

text \<open>The sample data with no records counted.\<close>

definition noRecordsData :: productData where
  "noRecordsData = sampleProductData \<lparr> productData.totalRecords := Num (Fin 0) \<rparr>"

text \<open>The sample data with a negative record count.\<close>

definition negativeRecordsData :: productData where
  "negativeRecordsData = sampleProductData \<lparr> productData.totalRecords := Num (Fin (- 5)) \<rparr>"

text \<open>The sample data with its four ranked lists empty or missing.\<close>

definition noListsData :: productData where
  "noListsData =
     sampleProductData \<lparr> productData.topSuppliers := None,
                         productData.topBuyers := Some [],
                         productData.importingCountries := Some [],
                         productData.exportingCountries := None \<rparr>"

section \<open>The slide plan of the orchestrator\<close>

text \<open>
  A slide definition of \<open>defineSlideStructure\<close>: every entry has an id, a type and a
  title; the rank and record-range parameters are present on some entries only.
\<close>

record slideDef =
  id' :: int
  type :: string
  title :: string
  countryRank :: "int option"
  supplierRank :: "int option"
  importerRank :: "int option"
  recordStart :: "int option"
  recordEnd :: "int option"

text \<open>An entry \<open>{ id, type, title }\<close> without parameters.\<close>

definition plainSlide :: "int \<Rightarrow> string \<Rightarrow> string \<Rightarrow> slideDef" where
  "plainSlide i ty ttl =
     \<lparr> slideDef.id' = i, slideDef.type = ty, slideDef.title = ttl, countryRank = None,
       supplierRank = None, importerRank = None, recordStart = None, recordEnd = None \<rparr>"

record slideSection =
  range' :: "int \<times> int"
  slides :: "slideDef list"

record slideStructure =
  foundation :: slideSection
  importingCountries :: slideSection
  exportingCountries :: slideSection
  supplierBuyer :: slideSection
  pricing :: slideSection
  shipmentRecords :: slideSection

text \<open>\<open>defineSlideStructure\<close>; \<open>Array.from({length: n}, (_, i) => \<dots>)\<close> is a map over \<open>[0..<n]\<close>.\<close>

definition defineSlideStructure :: slideStructure where
  "defineSlideStructure =
     \<lparr> slideStructure.foundation =
         \<lparr> range' = (1, 8),
           slides =
             [plainSlide 1 ''title_agenda'' ''Title & Agenda generation'',
              plainSlide 2 ''table_of_contents'' ''Table of Contents'',
              plainSlide 3 ''executive_summary'' ''Executive Summary (Key Findings)'',
              plainSlide 4 ''product_overview'' ''Product Overview'',
              plainSlide 5 ''market_share_analysis''
                ''Market share analysis- value, volume, import, export, countries'',
              plainSlide 6 ''geography_intelligence''
                ''Geography Import Export Intelligence- top 10 value and volume along with export and import'',
              plainSlide 7 ''supplier_buyer_relationships''
                ''Supplier-Buyer Relationships with countries- Sankey Diagram'',
              plainSlide 8 ''top_importing_countries''
                ''Top 10 Importing countries- name, market share and charts''] \<rparr>,
       slideStructure.importingCountries =
         \<lparr> range' = (9, 23),
           slides =
             map (\<lambda>i. (plainSlide (9 + int i) ''importing_country_suppliers''
                         (''Top '' @ showInt (int i + 1)
                          @ '' Importing country- Who are the top 10 suppliers countries''))
                       \<lparr> countryRank := Some (int i + 1) \<rparr>) [0..<5]
             @ map (\<lambda>i. (plainSlide (14 + int i) ''importing_country_companies''
                           (''Top '' @ showInt (int i + 1)
                            @ '' Importing country- Who are the top 10 suppliers companies''))
                         \<lparr> countryRank := Some (int i + 1) \<rparr>) [0..<10] \<rparr>,
       slideStructure.exportingCountries =
         \<lparr> range' = (24, 39),
           slides =
             [plainSlide 24 ''top_exporting_countries''
                ''Top 10 Exporting countries- name, market share and charts'']
             @ map (\<lambda>i. (plainSlide (25 + int i) ''exporting_country_destinations''
                           (''Top '' @ showInt (int i + 1)
                            @ '' Exporting country- Who are the top 10 destination countries''))
                         \<lparr> countryRank := Some (int i + 1) \<rparr>) [0..<5]
             @ map (\<lambda>i. (plainSlide (30 + int i) ''exporting_country_companies''
                           (''Top '' @ showInt (int i + 1)
                            @ '' Exporting country- Who are the top 10 Importer companies''))
                         \<lparr> countryRank := Some (int i + 1) \<rparr>) [0..<10] \<rparr>,
       supplierBuyer =
         \<lparr> range' = (40, 62),
           slides =
             [plainSlide 40 ''supplier_buyer_intelligence''
                ''SUPPLIER & BUYER INTELLIGENCE - Sankey Diagram'',
              plainSlide 41 ''top_suppliers_analysis''
                ''Top 15 Suppliers Analysis- market share, suppliers countries and importers name - Sankey Diagram'']
             @ map (\<lambda>i. (plainSlide (42 + int i) ''supplier_detailed_analysis''
                           (''Top '' @ showInt (int i + 1)
                            @ '' Supplier detailed analysis- price, number of destination countries, market share and charts''))
                         \<lparr> supplierRank := Some (int i + 1) \<rparr>) [0..<10]
             @ [plainSlide 52 ''top_importers_analysis''
                  ''Top 15 Importers Analysis- Market share, Suppliers countries and Importers name- Sankey Diagram'']
             @ map (\<lambda>i. (plainSlide (53 + int i) ''importer_detailed_analysis''
                           (''Top '' @ showInt (int i + 1)
                            @ '' Importer detailed analysis- price, market share, number of suppliers countries and charts''))
                         \<lparr> importerRank := Some (int i + 1) \<rparr>) [0..<10] \<rparr>,
       slideStructure.pricing =
         \<lparr> range' = (63, 63),
           slides = [plainSlide 63 ''pricing_analysis'' ''Pricing analysis (per unit)''] \<rparr>,
       slideStructure.shipmentRecords =
         \<lparr> range' = (67, 300),
           slides =
             map (\<lambda>i. (plainSlide (67 + int i) ''shipment_records''
                         (''Shipment Records '' @ showInt (int i + 1)))
                       \<lparr> recordStart := Some (int i * 10 + 1),
                         recordEnd := Some ((int i + 1) * 10) \<rparr>) [0..<234] \<rparr> \<rparr>"

text \<open>A generated slide; the markup is the work of the template engine.\<close>

record slide =
  id' :: int
  type :: string
  title :: string
  html :: string

section \<open>The section generators\<close>

text \<open>\<open>list[k]\<close> for a number \<open>k\<close>: \<open>undefined\<close> outside the list.\<close>

definition jsIndex :: "'a list \<Rightarrow> int \<Rightarrow> 'a option" where
  "jsIndex xs k = (if 0 \<le> k \<and> nat k < length xs then Some (xs ! nat k) else None)"

text \<open>\<open>list[rank - 1]\<close>, where a missing rank makes the index \<open>NaN\<close>.\<close>

definition atRank :: "'a list \<Rightarrow> int option \<Rightarrow> 'a option" where
  "atRank xs r = (case r of None \<Rightarrow> None | Some k \<Rightarrow> jsIndex xs (k - 1))"

text \<open>An optional number inside a template string: \<open>undefined\<close> when it is missing.\<close>

definition showRank :: "int option \<Rightarrow> string" where
  "showRank r = (case r of None \<Rightarrow> ''undefined'' | Some k \<Rightarrow> showInt k)"

subsection \<open>ImportingCountriesSection\<close>

text \<open>
  The content of a slide is built by the template engine, the chart generator and the
  section's own table and insight builders, which may throw; they are the parameter
  \<open>render\<close>, called with the slide definition and the country it resolved to.
\<close>

type_synonym countryRenderer = "slideDef \<Rightarrow> rankedCountry \<Rightarrow> error + string"

definition generateImportingCountrySuppliersSlide ::
  "processedData \<Rightarrow> countryRenderer \<Rightarrow> slideDef \<Rightarrow> error + slide" where
  "generateImportingCountrySuppliersSlide data render slideDef =
     (case atRank (geography.importingCountries (processedData.geography data))
                  (countryRank slideDef) of
        None \<Rightarrow>
          Inl (Error (''Importing country at rank '' @ showRank (countryRank slideDef)
                      @ '' not found''))
      | Some importingCountry \<Rightarrow>
          (case render slideDef importingCountry of
             Inl e \<Rightarrow> Inl e
           | Inr h \<Rightarrow>
               Inr \<lparr> slide.id' = slideDef.id' slideDef,
                     slide.type = slideDef.type slideDef,
                     slide.title =
                       rankedCountry.country importingCountry @ '': Top Supplier Countries'',
                     html = h \<rparr>))"

definition generateImportingCountryCompaniesSlide ::
  "processedData \<Rightarrow> countryRenderer \<Rightarrow> slideDef \<Rightarrow> error + slide" where
  "generateImportingCountryCompaniesSlide data render slideDef =
     (case atRank (geography.importingCountries (processedData.geography data))
                  (countryRank slideDef) of
        None \<Rightarrow>
          Inl (Error (''Importing country at rank '' @ showRank (countryRank slideDef)
                      @ '' not found''))
      | Some importingCountry \<Rightarrow>
          (case render slideDef importingCountry of
             Inl e \<Rightarrow> Inl e
           | Inr h \<Rightarrow>
               Inr \<lparr> slide.id' = slideDef.id' slideDef,
                     slide.type = slideDef.type slideDef,
                     slide.title =
                       rankedCountry.country importingCountry @ '': Top Supplier Companies'',
                     html = h \<rparr>))"

text \<open>The \<open>switch\<close> on the slide type in the loop of \<open>generateSlides\<close>.\<close>

definition importingSlide ::
  "processedData \<Rightarrow> countryRenderer \<Rightarrow> slideDef \<Rightarrow> error + slide" where
  "importingSlide data render slideDef =
     (if slideDef.type slideDef = ''importing_country_suppliers''
      then generateImportingCountrySuppliersSlide data render slideDef
      else if slideDef.type slideDef = ''importing_country_companies''
      then generateImportingCountryCompaniesSlide data render slideDef
      else Inl (Error (''Unknown slide type: '' @ slideDef.type slideDef)))"

text \<open>
  A loop \<open>for (const slideDef of slideDefinitions) { \<dots> slides.push(slide) }\<close>: the
  first slide that throws ends it.
\<close>

fun generateEach :: "(slideDef \<Rightarrow> error + slide) \<Rightarrow> slideDef list \<Rightarrow> error + slide list" where
  "generateEach gen [] = Inr []"
| "generateEach gen (d # ds) =
     (case gen d of
        Inl e \<Rightarrow> Inl e
      | Inr s \<Rightarrow> (case generateEach gen ds of Inl e \<Rightarrow> Inl e | Inr ss \<Rightarrow> Inr (s # ss)))"

text \<open>\<open>ImportingCountriesSection.generateSlides\<close>.\<close>

definition importingGenerateSlides ::
  "processedData \<Rightarrow> countryRenderer \<Rightarrow> slideDef list \<Rightarrow> error + slide list" where
  "importingGenerateSlides data render slideDefinitions =
     generateEach (importingSlide data render) slideDefinitions"

subsection \<open>ShipmentRecordsSection\<close>

text \<open>\<open>array.slice(start, end)\<close> on integers.\<close>

definition jsSlice :: "'a list \<Rightarrow> int \<Rightarrow> int \<Rightarrow> 'a list" where
  "jsSlice xs start end' =
     (let len = int (length xs);
          k = (if start < 0 then max (len + start) 0 else min start len);
          final = (if end' < 0 then max (len + end') 0 else min end' len)
      in take (nat (final - k)) (drop (nat k) xs))"

text \<open>
  The records of one slide: \<open>allRecords.slice(slideDef.recordStart - 1,
  slideDef.recordEnd)\<close>. A missing start makes the first argument \<open>NaN\<close>, read as 0; a
  missing end reads to the end of the array.
\<close>

definition slideRecords :: "slideDef \<Rightarrow> 'a list \<Rightarrow> 'a list" where
  "slideRecords slideDef allRecords =
     jsSlice allRecords
       (case recordStart slideDef of None \<Rightarrow> 0 | Some s \<Rightarrow> s - 1)
       (case recordEnd slideDef of None \<Rightarrow> int (length allRecords) | Some e \<Rightarrow> e)"

type_synonym recordsRenderer = "slideDef \<Rightarrow> shipmentRecord list \<Rightarrow> error + string"

definition generateShipmentRecordsSlide ::
  "recordsRenderer \<Rightarrow> slideDef \<Rightarrow> shipmentRecord list \<Rightarrow> error + slide" where
  "generateShipmentRecordsSlide render slideDef allRecords =
     (case render slideDef (slideRecords slideDef allRecords) of
        Inl e \<Rightarrow> Inl e
      | Inr h \<Rightarrow>
          Inr \<lparr> slide.id' = slideDef.id' slideDef,
                slide.type = slideDef.type slideDef,
                slide.title =
                  ''Shipment Records '' @ showRank (recordStart slideDef) @ ''-''
                  @ showRank (recordEnd slideDef),
                html = h \<rparr>)"

text \<open>
  \<open>ShipmentRecordsSection.generateSlides\<close>: the loop has no \<open>switch\<close>; it calls
  \<open>generateShipmentRecordsSlide\<close> on every slide definition, whatever its type.
\<close>

definition shipmentGenerateSlides ::
  "processedData \<Rightarrow> recordsRenderer \<Rightarrow> slideDef list \<Rightarrow> error + slide list" where
  "shipmentGenerateSlides data render slideDefinitions =
     generateEach
       (\<lambda>slideDef. generateShipmentRecordsSlide render slideDef
                     (shipmentData.shipmentRecords (shipments data)))
       slideDefinitions"


text \<open>The message of the \<open>default\<close> branch of every \<open>switch\<close> on the slide type.\<close>

definition unknownSlideType :: "slideDef \<Rightarrow> error" where
  "unknownSlideType slideDef = Error (''Unknown slide type: '' @ slideDef.type slideDef)"

type_synonym plainRenderer = "slideDef \<Rightarrow> error + string"

type_synonym companyRenderer = "slideDef \<Rightarrow> rankedCompany \<Rightarrow> error + string"

text \<open>
  A generator that resolves no rank: the slide keeps the id, the type and the title of
  its definition, and its markup is built by \<open>render\<close>.
\<close>

definition generatePlainSlide :: "plainRenderer \<Rightarrow> slideDef \<Rightarrow> error + slide" where
  "generatePlainSlide render slideDef =
     (case render slideDef of
        Inl e \<Rightarrow> Inl e
      | Inr h \<Rightarrow>
          Inr \<lparr> slide.id' = slideDef.id' slideDef,
                slide.type = slideDef.type slideDef,
                slide.title = slideDef.title slideDef,
                html = h \<rparr>)"

subsection \<open>FoundationSection\<close>

text \<open>The cases of the \<open>switch\<close>; each of the eight generators is a plain one.\<close>

definition foundationTypes :: "string list" where
  "foundationTypes =
     [''title_agenda'', ''table_of_contents'', ''executive_summary'', ''product_overview'',
      ''market_share_analysis'', ''geography_intelligence'', ''supplier_buyer_relationships'',
      ''top_importing_countries'']"

definition foundationSlide :: "plainRenderer \<Rightarrow> slideDef \<Rightarrow> error + slide" where
  "foundationSlide render slideDef =
     (if slideDef.type slideDef \<in> set foundationTypes
      then generatePlainSlide render slideDef
      else Inl (unknownSlideType slideDef))"

definition foundationGenerateSlides :: "plainRenderer \<Rightarrow> slideDef list \<Rightarrow> error + slide list" where
  "foundationGenerateSlides render slideDefinitions =
     generateEach (foundationSlide render) slideDefinitions"

subsection \<open>ExportingCountriesSection\<close>

definition generateExportingCountryDestinationsSlide ::
  "processedData \<Rightarrow> countryRenderer \<Rightarrow> slideDef \<Rightarrow> error + slide" where
  "generateExportingCountryDestinationsSlide data render slideDef =
     (case atRank (geography.exportingCountries (processedData.geography data))
                  (countryRank slideDef) of
        None \<Rightarrow>
          Inl (Error (''Exporting country at rank '' @ showRank (countryRank slideDef)
                      @ '' not found''))
      | Some exportingCountry \<Rightarrow>
          (case render slideDef exportingCountry of
             Inl e \<Rightarrow> Inl e
           | Inr h \<Rightarrow>
               Inr \<lparr> slide.id' = slideDef.id' slideDef,
                     slide.type = slideDef.type slideDef,
                     slide.title =
                       rankedCountry.country exportingCountry @ '': Top Destination Countries'',
                     html = h \<rparr>))"

definition generateExportingCountryCompaniesSlide ::
  "processedData \<Rightarrow> countryRenderer \<Rightarrow> slideDef \<Rightarrow> error + slide" where
  "generateExportingCountryCompaniesSlide data render slideDef =
     (case atRank (geography.exportingCountries (processedData.geography data))
                  (countryRank slideDef) of
        None \<Rightarrow>
          Inl (Error (''Exporting country at rank '' @ showRank (countryRank slideDef)
                      @ '' not found''))
      | Some exportingCountry \<Rightarrow>
          (case render slideDef exportingCountry of
             Inl e \<Rightarrow> Inl e
           | Inr h \<Rightarrow>
               Inr \<lparr> slide.id' = slideDef.id' slideDef,
                     slide.type = slideDef.type slideDef,
                     slide.title =
                       rankedCountry.country exportingCountry @ '': Top Importer Companies'',
                     html = h \<rparr>))"

definition exportingSlide ::
  "processedData \<Rightarrow> plainRenderer \<Rightarrow> countryRenderer \<Rightarrow> slideDef \<Rightarrow> error + slide" where
  "exportingSlide data renderPlain render slideDef =
     (if slideDef.type slideDef = ''top_exporting_countries''
      then generatePlainSlide renderPlain slideDef
      else if slideDef.type slideDef = ''exporting_country_destinations''
      then generateExportingCountryDestinationsSlide data render slideDef
      else if slideDef.type slideDef = ''exporting_country_companies''
      then generateExportingCountryCompaniesSlide data render slideDef
      else Inl (unknownSlideType slideDef))"

definition exportingGenerateSlides ::
  "processedData \<Rightarrow> plainRenderer \<Rightarrow> countryRenderer \<Rightarrow> slideDef list \<Rightarrow> error + slide list"
  where
  "exportingGenerateSlides data renderPlain render slideDefinitions =
     generateEach (exportingSlide data renderPlain render) slideDefinitions"

subsection \<open>SupplierBuyerSection\<close>

definition generateSupplierDetailedAnalysisSlide ::
  "processedData \<Rightarrow> companyRenderer \<Rightarrow> slideDef \<Rightarrow> error + slide" where
  "generateSupplierDetailedAnalysisSlide data render slideDef =
     (case atRank (supplierData.topSuppliers (suppliers data)) (supplierRank slideDef) of
        None \<Rightarrow>
          Inl (Error (''Supplier at rank '' @ showRank (supplierRank slideDef)
                      @ '' not found''))
      | Some s \<Rightarrow>
          (case render slideDef s of
             Inl e \<Rightarrow> Inl e
           | Inr h \<Rightarrow>
               Inr \<lparr> slide.id' = slideDef.id' slideDef,
                     slide.type = slideDef.type slideDef,
                     slide.title = rankedCompany.name s @ '' - Detailed Analysis'',
                     html = h \<rparr>))"

definition generateImporterDetailedAnalysisSlide ::
  "processedData \<Rightarrow> companyRenderer \<Rightarrow> slideDef \<Rightarrow> error + slide" where
  "generateImporterDetailedAnalysisSlide data render slideDef =
     (case atRank (buyerData.topBuyers (buyers data)) (importerRank slideDef) of
        None \<Rightarrow>
          Inl (Error (''Importer at rank '' @ showRank (importerRank slideDef)
                      @ '' not found''))
      | Some b \<Rightarrow>
          (case render slideDef b of
             Inl e \<Rightarrow> Inl e
           | Inr h \<Rightarrow>
               Inr \<lparr> slide.id' = slideDef.id' slideDef,
                     slide.type = slideDef.type slideDef,
                     slide.title = rankedCompany.name b @ '' - Detailed Analysis'',
                     html = h \<rparr>))"

definition supplierBuyerSlide ::
  "processedData \<Rightarrow> plainRenderer \<Rightarrow> companyRenderer \<Rightarrow> slideDef \<Rightarrow> error + slide" where
  "supplierBuyerSlide data renderPlain render slideDef =
     (if slideDef.type slideDef = ''supplier_buyer_intelligence''
      then generatePlainSlide renderPlain slideDef
      else if slideDef.type slideDef = ''top_suppliers_analysis''
      then generatePlainSlide renderPlain slideDef
      else if slideDef.type slideDef = ''supplier_detailed_analysis''
      then generateSupplierDetailedAnalysisSlide data render slideDef
      else if slideDef.type slideDef = ''top_importers_analysis''
      then generatePlainSlide renderPlain slideDef
      else if slideDef.type slideDef = ''importer_detailed_analysis''
      then generateImporterDetailedAnalysisSlide data render slideDef
      else Inl (unknownSlideType slideDef))"

definition supplierBuyerGenerateSlides ::
  "processedData \<Rightarrow> plainRenderer \<Rightarrow> companyRenderer \<Rightarrow> slideDef list \<Rightarrow> error + slide list"
  where
  "supplierBuyerGenerateSlides data renderPlain render slideDefinitions =
     generateEach (supplierBuyerSlide data renderPlain render) slideDefinitions"

subsection \<open>PricingSection\<close>

definition pricingSlide :: "plainRenderer \<Rightarrow> slideDef \<Rightarrow> error + slide" where
  "pricingSlide render slideDef =
     (if slideDef.type slideDef = ''pricing_analysis''
      then generatePlainSlide render slideDef
      else Inl (unknownSlideType slideDef))"

definition pricingGenerateSlides :: "plainRenderer \<Rightarrow> slideDef list \<Rightarrow> error + slide list" where
  "pricingGenerateSlides render slideDefinitions =
     generateEach (pricingSlide render) slideDefinitions"

section \<open>MainOrchestrator\<close>

text \<open>The \<open>generateSlides\<close> methods of the six section modules.\<close>

record sectionModules =
  foundation :: "slideDef list \<Rightarrow> error + slide list"
  importingCountries :: "slideDef list \<Rightarrow> error + slide list"
  exportingCountries :: "slideDef list \<Rightarrow> error + slide list"
  supplierBuyer :: "slideDef list \<Rightarrow> error + slide list"
  pricing :: "slideDef list \<Rightarrow> error + slide list"
  shipmentRecords :: "slideDef list \<Rightarrow> error + slide list"

text \<open>The message of the validation at the end of \<open>generateAllSlides\<close>.\<close>

definition structureDeviation :: "nat \<Rightarrow> error" where
  "structureDeviation slideCount =
     Error ([CHR 0xE2, CHR 0x9D, CHR 0x8C]
            @ '' STRUCTURE DEVIATION DETECTED: Expected 297 slides, got ''
            @ showNat slideCount)"

text \<open>
  \<open>generateAllSlides\<close>: the six sections in order, each adding its slides and their
  number; then the validation of the count.
\<close>

definition generateAllSlides :: "sectionModules \<Rightarrow> slideStructure \<Rightarrow> error + slide list" where
  "generateAllSlides secs st =
     (case sectionModules.foundation secs (slides (slideStructure.foundation st)) of
        Inl e \<Rightarrow> Inl e
      | Inr foundationSlides \<Rightarrow>
     (case sectionModules.importingCountries secs
             (slides (slideStructure.importingCountries st)) of
        Inl e \<Rightarrow> Inl e
      | Inr importingSlides \<Rightarrow>
     (case sectionModules.exportingCountries secs
             (slides (slideStructure.exportingCountries st)) of
        Inl e \<Rightarrow> Inl e
      | Inr exportingSlides \<Rightarrow>
     (case sectionModules.supplierBuyer secs (slides (slideStructure.supplierBuyer st)) of
        Inl e \<Rightarrow> Inl e
      | Inr supplierBuyerSlides \<Rightarrow>
     (case sectionModules.pricing secs (slides (slideStructure.pricing st)) of
        Inl e \<Rightarrow> Inl e
      | Inr pricingSlides \<Rightarrow>
     (case sectionModules.shipmentRecords secs
             (slides (slideStructure.shipmentRecords st)) of
        Inl e \<Rightarrow> Inl e
      | Inr shipmentSlides \<Rightarrow>
          (let slideCount = length foundationSlides + length importingSlides
                 + length exportingSlides + length supplierBuyerSlides
                 + length pricingSlides + length shipmentSlides
           in if slideCount \<noteq> 297 then Inl (structureDeviation slideCount)
              else Inr (foundationSlides @ importingSlides @ exportingSlides
                        @ supplierBuyerSlides @ pricingSlides @ shipmentSlides))))))))"

text \<open>
  The driver \<open>generatePresentation\<close> of \<open>generate-300-slides.js\<close>: the document is
  exported only after \<open>generateAllSlides\<close> has returned; any error is caught and
  reported with no document written. Filling the template and writing the file are the
  parameter \<open>exportToHTML\<close>.
\<close>

record runResult =
  success :: bool
  outputFile :: "string option"
  errorMessage :: "string option"

fun message :: "error \<Rightarrow> string" where
  "message (Error m) = m"
| "message (TypeError m) = m"

definition generatePresentation ::
  "(slide list \<Rightarrow> string) \<Rightarrow> sectionModules \<Rightarrow> slideStructure \<Rightarrow> runResult" where
  "generatePresentation exportToHTML secs st =
     (case generateAllSlides secs st of
        Inl e \<Rightarrow> \<lparr> success = False, outputFile = None, errorMessage = Some (message e) \<rparr>
      | Inr ss \<Rightarrow> \<lparr> success = True, outputFile = Some (exportToHTML ss), errorMessage = None \<rparr>)"

subsection \<open>The sections of one orchestrator\<close>

text \<open>The markup builders of a run, one for each shape of generator.\<close>

record renderers =
  plain :: plainRenderer
  byCountry :: countryRenderer
  byCompany :: companyRenderer
  byRecords :: recordsRenderer

text \<open>
  The six section modules as the constructor of \<open>MainOrchestrator\<close> builds them, all on
  the processed data of the same \<open>DataProcessor\<close>.
\<close>

definition orchestratorSections :: "renderers \<Rightarrow> processedData \<Rightarrow> sectionModules" where
  "orchestratorSections r data =
     \<lparr> sectionModules.foundation = foundationGenerateSlides (plain r),
       sectionModules.importingCountries = importingGenerateSlides data (byCountry r),
       sectionModules.exportingCountries = exportingGenerateSlides data (plain r) (byCountry r),
       sectionModules.supplierBuyer = supplierBuyerGenerateSlides data (plain r) (byCompany r),
       sectionModules.pricing = pricingGenerateSlides (plain r),
       sectionModules.shipmentRecords = shipmentGenerateSlides data (byRecords r) \<rparr>"

text \<open>The sections by name, in the order \<open>generateAllSlides\<close> runs them.\<close>

datatype sectionName =
  Foundation | ImportingCountries | ExportingCountries | SupplierBuyer | Pricing
  | ShipmentRecords

fun earlier :: "sectionName \<Rightarrow> sectionName list" where
  "earlier Foundation = []"
| "earlier ImportingCountries = [Foundation]"
| "earlier ExportingCountries = [Foundation, ImportingCountries]"
| "earlier SupplierBuyer = [Foundation, ImportingCountries, ExportingCountries]"
| "earlier Pricing = [Foundation, ImportingCountries, ExportingCountries, SupplierBuyer]"
| "earlier ShipmentRecords =
     [Foundation, ImportingCountries, ExportingCountries, SupplierBuyer, Pricing]"

fun sectionOf :: "sectionModules \<Rightarrow> sectionName \<Rightarrow> slideDef list \<Rightarrow> error + slide list" where
  "sectionOf secs Foundation = sectionModules.foundation secs"
| "sectionOf secs ImportingCountries = sectionModules.importingCountries secs"
| "sectionOf secs ExportingCountries = sectionModules.exportingCountries secs"
| "sectionOf secs SupplierBuyer = sectionModules.supplierBuyer secs"
| "sectionOf secs Pricing = sectionModules.pricing secs"
| "sectionOf secs ShipmentRecords = sectionModules.shipmentRecords secs"

fun entriesOf :: "slideStructure \<Rightarrow> sectionName \<Rightarrow> slideDef list" where
  "entriesOf st Foundation = slides (slideStructure.foundation st)"
| "entriesOf st ImportingCountries = slides (slideStructure.importingCountries st)"
| "entriesOf st ExportingCountries = slides (slideStructure.exportingCountries st)"
| "entriesOf st SupplierBuyer = slides (slideStructure.supplierBuyer st)"
| "entriesOf st Pricing = slides (slideStructure.pricing st)"
| "entriesOf st ShipmentRecords = slides (slideStructure.shipmentRecords st)"

text \<open>The generator that a section's loop applies to one slide definition.\<close>

fun slideOf :: "renderers \<Rightarrow> processedData \<Rightarrow> sectionName \<Rightarrow> slideDef \<Rightarrow> error + slide" where
  "slideOf r data Foundation = foundationSlide (plain r)"
| "slideOf r data ImportingCountries = importingSlide data (byCountry r)"
| "slideOf r data ExportingCountries = exportingSlide data (plain r) (byCountry r)"
| "slideOf r data SupplierBuyer = supplierBuyerSlide data (plain r) (byCompany r)"
| "slideOf r data Pricing = pricingSlide (plain r)"
| "slideOf r data ShipmentRecords =
     (\<lambda>slideDef. generateShipmentRecordsSlide (byRecords r) slideDef
                   (shipmentData.shipmentRecords (shipments data)))"

section \<open>Sample runs of the orchestrator\<close>

text \<open>A section module that turns every slide definition into a slide with empty markup.\<close>

definition echoSlide :: "slideDef \<Rightarrow> slide" where
  "echoSlide d =
     \<lparr> slide.id' = slideDef.id' d, slide.type = slideDef.type d,
       slide.title = slideDef.title d, html = [] \<rparr>"

definition echoSection :: "slideDef list \<Rightarrow> error + slide list" where
  "echoSection slideDefinitions = Inr (map echoSlide slideDefinitions)"

text \<open>Six such modules, and the same with a pricing module that returns no slide.\<close>

definition sampleModules :: sectionModules where
  "sampleModules =
     \<lparr> sectionModules.foundation = echoSection,
       sectionModules.importingCountries = echoSection,
       sectionModules.exportingCountries = echoSection,
       sectionModules.supplierBuyer = echoSection,
       sectionModules.pricing = echoSection,
       sectionModules.shipmentRecords = echoSection \<rparr>"

definition shortModules :: sectionModules where
  "shortModules = sampleModules \<lparr> sectionModules.pricing := (\<lambda>ds. Inr []) \<rparr>"

text \<open>A renderer that returns empty markup, and the normalized view of the sample data.\<close>

definition blankRender :: countryRenderer where
  "blankRender slideDef c = Inr []"

definition sampleView :: processedData where
  "sampleView = projr (DataProcessor sampleRuntime sampleProductData)"

text \<open>Renderers that return empty markup.\<close>

definition blankRenderers :: renderers where
  "blankRenderers =
     \<lparr> plain = (\<lambda>d. Inr []), byCountry = blankRender, byCompany = (\<lambda>d c. Inr []),
       byRecords = (\<lambda>d rs. Inr []) \<rparr>"

section \<open>Evaluation rules\<close>

lemma showNat_small: "n < 10 \<Longrightarrow> showNat n = [digitChar n]"
  by (simp add: showNat.simps)

lemma showNat_large: "10 \<le> n \<Longrightarrow> showNat n = showNat (n div 10) @ [digitChar n]"
  by (subst showNat.simps) simp

lemma group3_small: "n < 1000 \<Longrightarrow> group3 n = showNat n"
  by (simp add: group3.simps)

lemma group3_large: "1000 \<le> n \<Longrightarrow> group3 n = group3 (n div 1000) @ '','' @ pad3 (n mod 1000)"
  by (subst group3.simps) simp

lemma floor_rat_numeral_div:
  "\<lfloor>(numeral a / numeral b :: rat)\<rfloor> = numeral a div numeral b"
  using floor_divide_of_int_eq [of "numeral a" "numeral b", where ?'a = rat] by simp

lemmas show_eval =
  showNat_small showNat_large group3_small group3_large pad3_def digitChar_def
  roundHalfExpand_def floor_rat_numeral_div


section \<open>Lemmas about the DataProcessor\<close>

lemma length_mapIndex: "length (mapIndex f xs) = length xs"
  by (simp add: mapIndex_def)

lemma map_mapIndex_index:
  assumes "\<And>x i. g (f x i) = h i"
  shows "map g (mapIndex f xs) = map h [0..<length xs]"
  by (rule nth_equalityI) (simp_all add: mapIndex_def assms)

lemma map_mapIndex_elem:
  assumes "\<And>x i. g (f x i) = h x"
  shows "map g (mapIndex f xs) = map h xs"
  by (rule nth_equalityI) (simp_all add: mapIndex_def assms)

lemma ranks_upto: "map (\<lambda>i. int i + 1) [0..<n] = [1..int n]"
proof (induction n)
  case 0
  show ?case by simp
next
  case (Suc n)
  have "[1..int (Suc n)] = [1..int n] @ [int n + 1]"
    using upto_rec2 [of 1 "int n + 1"] by (simp add: add.commute)
  with Suc show ?case by simp
qed

lemma rank_rankCountry: "map rankedCountry.rank (mapIndex (rankCountry rt) xs) = [1..int (length xs)]"
  using map_mapIndex_index [of rankedCountry.rank "rankCountry rt" "\<lambda>i. int i + 1" xs]
  by (simp add: rankCountry_def ranks_upto)

lemma rank_rankCompany: "map rankedCompany.rank (mapIndex (rankCompany rt pd) xs) = [1..int (length xs)]"
  using map_mapIndex_index [of rankedCompany.rank "rankCompany rt pd" "\<lambda>i. int i + 1" xs]
  by (simp add: rankCompany_def ranks_upto)

lemma country_rankCountry:
  "map rankedCountry.country (mapIndex (rankCountry rt) xs) = map countryRow.country xs"
  by (rule map_mapIndex_elem) (simp add: rankCountry_def)

lemma rawValue_rankCountry:
  "map rankedCountry.rawValue (mapIndex (rankCountry rt) xs) = map countryRow.value xs"
  by (rule map_mapIndex_elem) (simp add: rankCountry_def)

lemma name_rankCompany:
  "map rankedCompany.name (mapIndex (rankCompany rt pd) xs) = map company.name xs"
  by (rule map_mapIndex_elem) (simp add: rankCompany_def)

lemma rawValue_rankCompany:
  "map rankedCompany.rawValue (mapIndex (rankCompany rt pd) xs) = map company.value xs"
  by (rule map_mapIndex_elem) (simp add: rankCompany_def)

lemma DataProcessor_Inr:
  assumes "DataProcessor rt pd = Inr v"
  shows "processedData.geography v = processGeographicData rt pd"
    and "market v = processMarketData rt pd"
    and "supplierData.topSuppliers (suppliers v) = mapIndex (rankCompany rt pd) (orEmpty (productData.topSuppliers pd))"
    and "buyerData.topBuyers (buyers v) = mapIndex (rankCompany rt pd) (orEmpty (productData.topBuyers pd))"
    and "shipmentData.shipmentRecords (shipments v) = generateShipmentRecords rt pd"
  using assms
  by (auto simp: DataProcessor_def processAllData_def processSupplierData_def
      processBuyerData_def processShipmentData_def Let_def split: sum.splits)

lemma groupLoop_ok:
  "\<forall>c \<in> set cs. company.country c \<notin> set objectPrototypeKeys \<Longrightarrow>
     \<exists>g'. groupLoop var cs g = Inr g'"
  by (induction cs arbitrary: g) simp_all

lemma DataProcessor_ok:
  assumes "\<forall>c \<in> set (orEmpty (productData.topSuppliers pd)). company.country c \<notin> set objectPrototypeKeys"
    and "\<forall>c \<in> set (orEmpty (productData.topBuyers pd)). company.country c \<notin> set objectPrototypeKeys"
  shows "\<exists>v. DataProcessor rt pd = Inr v"
proof -
  obtain g1 where g1: "groupLoop ''supplier'' (orEmpty (productData.topSuppliers pd)) Map.empty = Inr g1"
    using groupLoop_ok [OF assms(1)] by blast
  obtain g2 where g2: "groupLoop ''buyer'' (orEmpty (productData.topBuyers pd)) Map.empty = Inr g2"
    using groupLoop_ok [OF assms(2)] by blast
  show ?thesis
    by (simp add: DataProcessor_def processAllData_def processSupplierData_def
        processBuyerData_def groupSuppliersByCountry_def groupBuyersByCountry_def g1 g2 Let_def)
qed

lemma sample_countries_ok:
  "\<forall>c \<in> set (orEmpty (productData.topSuppliers sampleProductData)). company.country c \<notin> set objectPrototypeKeys"
  "\<forall>c \<in> set (orEmpty (productData.topBuyers sampleProductData)). company.country c \<notin> set objectPrototypeKeys"
  by (simp_all add: sampleProductData_def orEmpty_def objectPrototypeKeys_def)

lemma DataProcessor_sample: "\<exists>v. DataProcessor rt sampleProductData = Inr v"
  by (rule DataProcessor_ok) (rule sample_countries_ok)+

lemma Inr_projr: "\<exists>v. x = Inr v \<Longrightarrow> x = Inr (projr x)"
  by auto

lemma generateShipmentRecords_nth:
  "i < 2340 \<Longrightarrow> generateShipmentRecords rt pd ! i = shipmentRecordAt rt pd i"
  by (simp add: generateShipmentRecords_def)

lemma generateShipmentRecords_length: "length (generateShipmentRecords rt pd) = 2340"
  by (simp add: generateShipmentRecords_def)

lemma generateShipmentRecords_ids:
  "map shipmentRecord.id' (generateShipmentRecords rt pd) = [1..2340]"
proof -
  have "map shipmentRecord.id' (generateShipmentRecords rt pd) = map (\<lambda>i. int i + 1) [0..<2340]"
    by (simp add: generateShipmentRecords_def shipmentRecordAt_def Let_def comp_def)
  also have "\<dots> = [1..int 2340]"
    by (rule ranks_upto)
  finally show ?thesis by simp
qed

lemma jsDiv_one: "jsDiv x (Fin 1) = x"
  by (cases x) simp_all


lemma DataProcessor_isl:
  "isl (DataProcessor rt pd)
     \<longleftrightarrow> isl (groupSuppliersByCountry (orEmpty (productData.topSuppliers pd)))
         \<or> isl (groupBuyersByCountry (orEmpty (productData.topBuyers pd)))"
  by (auto simp: DataProcessor_def processAllData_def processSupplierData_def
      processBuyerData_def Let_def split: sum.splits)

lemma group_empty:
  "\<not> isl (groupSuppliersByCountry [])" "\<not> isl (groupBuyersByCountry [])"
  by (simp_all add: groupSuppliersByCountry_def groupBuyersByCountry_def)

lemma market_truthy_records:
  assumes "truthy (productData.totalRecords pd)"
  shows "marketData.totalRecords (processMarketData rt pd)
           = intlDecimal (toNumber (productData.totalRecords pd))"
    and "avgTransactionValue (processMarketData rt pd)
           = formatCurrency (Num (jsDiv (orNum (productData.totalValue pd) 0)
                                        (toNumber (productData.totalRecords pd))))"
  using assms
  by (cases "productData.totalRecords pd" rule: truthy.cases;
      simp add: processMarketData_def formatNumber_def orNum_def)+

lemma formatCurrencyAny_Field: "formatCurrencyAny p (Field v) = Inr (formatCurrency v)"
  by (simp add: formatCurrencyAny_def formatCurrency_def orZero_def orNum_def)

lemma formatNumberAny_Field: "formatNumberAny p (Field v) = Inr (formatNumber v)"
  by (simp add: formatNumberAny_def formatNumber_def orZero_def orNum_def)

lemma formatPercentageAny_Field:
  "formatPercentageAny expStr (Field v) = Inr (formatPercentage expStr v)"
  by (cases v rule: truthy.cases)
     (simp_all add: formatPercentageAny_def formatPercentage_def orZero_def orNum_def)


section \<open>The claims about the DataProcessor\<close>

text \<open>
  Claim C3. Whenever the constructor returns, each of the four ranked lists of the
  normalized view (importing countries, exporting countries, top suppliers, top buyers)
  carries the ranks \<open>1, 2, \<dots>, length\<close> in this order, with no gap and no duplicate,
  and its entries are those of the input list in the input's order.
\<close>

theorem ranks_contiguous:
  assumes "DataProcessor rt pd = Inr v"
  shows "map rankedCountry.rank (geography.importingCountries (processedData.geography v))
           = [1..int (length (orEmpty (productData.importingCountries pd)))]
       \<and> map rankedCountry.rank (geography.exportingCountries (processedData.geography v))
           = [1..int (length (orEmpty (productData.exportingCountries pd)))]
       \<and> map rankedCompany.rank (supplierData.topSuppliers (suppliers v))
           = [1..int (length (orEmpty (productData.topSuppliers pd)))]
       \<and> map rankedCompany.rank (buyerData.topBuyers (buyers v))
           = [1..int (length (orEmpty (productData.topBuyers pd)))]
       \<and> map rankedCountry.country (geography.importingCountries (processedData.geography v))
           = map countryRow.country (orEmpty (productData.importingCountries pd))
       \<and> map rankedCountry.country (geography.exportingCountries (processedData.geography v))
           = map countryRow.country (orEmpty (productData.exportingCountries pd))
       \<and> map rankedCompany.name (supplierData.topSuppliers (suppliers v))
           = map company.name (orEmpty (productData.topSuppliers pd))
       \<and> map rankedCompany.name (buyerData.topBuyers (buyers v))
           = map company.name (orEmpty (productData.topBuyers pd))"
  by (simp add: DataProcessor_Inr [OF assms] processGeographicData_def rank_rankCountry
      rank_rankCompany country_rankCountry name_rankCompany)

theorem ranks_contiguous_witness:
  "DataProcessor sampleRuntime sampleProductData
     = Inr (projr (DataProcessor sampleRuntime sampleProductData))
   \<and> map rankedCountry.rank (geography.importingCountries (processedData.geography
        (projr (DataProcessor sampleRuntime sampleProductData)))) = [1, 2, 3]
   \<and> map rankedCompany.rank (supplierData.topSuppliers (suppliers
        (projr (DataProcessor sampleRuntime sampleProductData)))) = [1, 2, 3]
   \<and> map rankedCompany.name (supplierData.topSuppliers (suppliers
        (projr (DataProcessor sampleRuntime sampleProductData))))
       = [''Bristol-Myers Squibb'', ''Pfizer Inc'', ''Cipla Ltd'']"
proof -
  have ok: "DataProcessor sampleRuntime sampleProductData
              = Inr (projr (DataProcessor sampleRuntime sampleProductData))"
    by (rule Inr_projr) (rule DataProcessor_sample)
  have l1: "length (orEmpty (productData.importingCountries sampleProductData)) = 3"
    by (simp add: sampleProductData_def orEmpty_def)
  have l2: "length (orEmpty (productData.topSuppliers sampleProductData)) = 3"
    by (simp add: sampleProductData_def orEmpty_def)
  have l3: "map company.name (orEmpty (productData.topSuppliers sampleProductData))
              = [''Bristol-Myers Squibb'', ''Pfizer Inc'', ''Cipla Ltd'']"
    by (simp add: sampleProductData_def orEmpty_def)
  have u: "[1..3::int] = [1, 2, 3]"
    by (simp add: upto_rec1)
  show ?thesis
    using ranks_contiguous [OF ok] ok by (simp add: l1 l2 l3 u)
qed


text \<open>
  Claim C4. The source has no share function with a guard: the share of a supplier or
  buyer is \<open>(value / totalValue) * 100\<close> as it stands. On the sample data with a total
  value of zero, every supplier's raw share is \<open>Infinity\<close> and is displayed as
  \<open>Infinity%\<close>; a company of value zero gets the raw share \<open>NaN\<close>. The divisions in
  \<open>processMarketData\<close> and \<open>calculatePriceByCountry\<close> are guarded with \<open>|| 1\<close>.
\<close>

theorem share_of_zero_total:
  "productData.totalValue zeroTotalData = Num (Fin 0)
   \<and> map rankedCompany.rawShare (mapIndex (rankCompany sampleRuntime zeroTotalData)
       (orEmpty (productData.topSuppliers zeroTotalData))) = [PosInf, PosInf, PosInf]
   \<and> map rankedCompany.share (mapIndex (rankCompany sampleRuntime zeroTotalData)
       (orEmpty (productData.topSuppliers zeroTotalData)))
       = [''Infinity%'', ''Infinity%'', ''Infinity%'']
   \<and> map rankedCompany.rawShare (mapIndex (rankCompany sampleRuntime zeroTotalData)
       (orEmpty (productData.topBuyers zeroTotalData))) = [PosInf, PosInf, PosInf]
   \<and> rankedCompany.rawShare (rankCompany sampleRuntime zeroTotalData
         \<lparr> company.name = ''Idle'', company.country = ''USA'', company.value = Num (Fin 0) \<rparr> 0)
       = NaN"
  by (simp add: zeroTotalData_def sampleProductData_def orEmpty_def mapIndex_def rankCompany_def
      formatPercentage_def orNum_def upt_rec)

text \<open>
  Claim C5, as stated, fails: with \<open>totalRecords = 0\<close> the constructor returns a view,
  whose record count reads \<open>0\<close> and whose average transaction value is the total value
  divided by the substituted \<open>1\<close>.
\<close>

theorem normalize_no_records_counterexample:
  "\<not> isl (DataProcessor sampleRuntime noRecordsData)
   \<and> productData.totalRecords noRecordsData = Num (Fin 0)
   \<and> marketData.totalRecords (market (projr (DataProcessor sampleRuntime noRecordsData))) = ''0''
   \<and> avgTransactionValue (market (projr (DataProcessor sampleRuntime noRecordsData)))
       = ''$1,245,800,000''"
proof -
  have c: "\<forall>c \<in> set (orEmpty (productData.topSuppliers noRecordsData)). company.country c \<notin> set objectPrototypeKeys"
    "\<forall>c \<in> set (orEmpty (productData.topBuyers noRecordsData)). company.country c \<notin> set objectPrototypeKeys"
    using sample_countries_ok by (simp_all add: noRecordsData_def)
  have ok: "DataProcessor sampleRuntime noRecordsData
              = Inr (projr (DataProcessor sampleRuntime noRecordsData))"
    by (rule Inr_projr) (rule DataProcessor_ok [OF c])
  have m: "market (projr (DataProcessor sampleRuntime noRecordsData))
             = processMarketData sampleRuntime noRecordsData"
    by (rule DataProcessor_Inr(2) [OF ok])
  have "\<not> isl (DataProcessor sampleRuntime noRecordsData)"
    by (subst ok) simp
  moreover have "productData.totalRecords noRecordsData = Num (Fin 0)"
    by (simp add: noRecordsData_def)
  moreover have "marketData.totalRecords (processMarketData sampleRuntime noRecordsData) = ''0''"
    by (simp add: processMarketData_def noRecordsData_def formatNumber_def orNum_def
        show_eval stripZeros_def)
  moreover have "avgTransactionValue (processMarketData sampleRuntime noRecordsData)
                   = ''$1,245,800,000''"
    by (simp add: processMarketData_def noRecordsData_def sampleProductData_def
        formatCurrency_def orNum_def show_eval)
  ultimately show ?thesis by (simp add: m)
qed


text \<open>
  Claim C5, amended. Normalization does not reject an input for its record count or for
  an empty ranked list. Whether it fails does not depend on \<open>totalRecords\<close> (a number,
  \<open>undefined\<close> or \<open>null\<close>), and when it returns on an input it also returns on that input
  with a ranked list emptied or left out. In the view it returns it substitutes
  defaults: a missing, null, zero or \<open>NaN\<close> record count is displayed as \<open>0\<close> and replaced
  by \<open>1\<close> as the divisor of the average transaction value, any other record count, a
  negative one included, is displayed and divided by as it is, and a missing or empty
  ranked list gives an empty ranked list.
\<close>

theorem normalize_substitutes_defaults:
  "isl (DataProcessor rt (pd \<lparr> productData.totalRecords := x \<rparr>)) = isl (DataProcessor rt pd)
   \<and> (\<not> isl (DataProcessor rt pd) \<and> orEmpty ls = []
        \<longrightarrow> \<not> isl (DataProcessor rt (pd \<lparr> productData.topSuppliers := ls \<rparr>))
          \<and> \<not> isl (DataProcessor rt (pd \<lparr> productData.topBuyers := ls \<rparr>)))
   \<and> (\<not> isl (DataProcessor rt pd) \<and> orEmpty cs = []
        \<longrightarrow> \<not> isl (DataProcessor rt (pd \<lparr> productData.importingCountries := cs \<rparr>))
          \<and> \<not> isl (DataProcessor rt (pd \<lparr> productData.exportingCountries := cs \<rparr>)))
   \<and> (DataProcessor rt pd = Inr v
        \<longrightarrow> (\<not> truthy (productData.totalRecords pd) \<longrightarrow>
                marketData.totalRecords (market v) = ''0''
                \<and> avgTransactionValue (market v) = marketData.totalValue (market v))
          \<and> (truthy (productData.totalRecords pd) \<longrightarrow>
                marketData.totalRecords (market v)
                  = intlDecimal (toNumber (productData.totalRecords pd))
                \<and> avgTransactionValue (market v)
                  = formatCurrency (Num (jsDiv (orNum (productData.totalValue pd) 0)
                                               (toNumber (productData.totalRecords pd)))))
          \<and> (orEmpty (productData.importingCountries pd) = [] \<longrightarrow>
                geography.importingCountries (processedData.geography v) = [])
          \<and> (orEmpty (productData.exportingCountries pd) = [] \<longrightarrow>
                geography.exportingCountries (processedData.geography v) = [])
          \<and> (orEmpty (productData.topSuppliers pd) = [] \<longrightarrow>
                supplierData.topSuppliers (suppliers v) = [])
          \<and> (orEmpty (productData.topBuyers pd) = [] \<longrightarrow>
                buyerData.topBuyers (buyers v) = []))"
proof (intro conjI impI)
  show "isl (DataProcessor rt (pd \<lparr> productData.totalRecords := x \<rparr>)) = isl (DataProcessor rt pd)"
    by (simp add: DataProcessor_isl)
next
  assume "\<not> isl (DataProcessor rt pd) \<and> orEmpty ls = []"
  then show "\<not> isl (DataProcessor rt (pd \<lparr> productData.topSuppliers := ls \<rparr>))"
    and "\<not> isl (DataProcessor rt (pd \<lparr> productData.topBuyers := ls \<rparr>))"
    by (simp_all add: DataProcessor_isl group_empty)
next
  assume "\<not> isl (DataProcessor rt pd) \<and> orEmpty cs = []"
  then show "\<not> isl (DataProcessor rt (pd \<lparr> productData.importingCountries := cs \<rparr>))"
    and "\<not> isl (DataProcessor rt (pd \<lparr> productData.exportingCountries := cs \<rparr>))"
    by (simp_all add: DataProcessor_isl)
next
  assume v: "DataProcessor rt pd = Inr v"
  note m = DataProcessor_Inr(2) [OF v]
  {
    assume t: "\<not> truthy (productData.totalRecords pd)"
    then show "marketData.totalRecords (market v) = ''0''"
      by (simp add: m processMarketData_def formatNumber_def orNum_def show_eval stripZeros_def)
    from t show "avgTransactionValue (market v) = marketData.totalValue (market v)"
      by (simp add: m processMarketData_def jsDiv_one orNum_def [of "productData.totalRecords pd"])
  }
  {
    assume t: "truthy (productData.totalRecords pd)"
    then show "marketData.totalRecords (market v)
                  = intlDecimal (toNumber (productData.totalRecords pd))"
      by (simp add: m market_truthy_records)
    from t show "avgTransactionValue (market v)
                  = formatCurrency (Num (jsDiv (orNum (productData.totalValue pd) 0)
                                               (toNumber (productData.totalRecords pd))))"
      by (simp add: m market_truthy_records)
  }
  {
    assume "orEmpty (productData.importingCountries pd) = []"
    then show "geography.importingCountries (processedData.geography v) = []"
      by (simp add: DataProcessor_Inr [OF v] processGeographicData_def mapIndex_def)
  }
  {
    assume "orEmpty (productData.exportingCountries pd) = []"
    then show "geography.exportingCountries (processedData.geography v) = []"
      by (simp add: DataProcessor_Inr [OF v] processGeographicData_def mapIndex_def)
  }
  {
    assume "orEmpty (productData.topSuppliers pd) = []"
    then show "supplierData.topSuppliers (suppliers v) = []"
      by (simp add: DataProcessor_Inr [OF v] mapIndex_def)
  }
  {
    assume "orEmpty (productData.topBuyers pd) = []"
    then show "buyerData.topBuyers (buyers v) = []"
      by (simp add: DataProcessor_Inr [OF v] mapIndex_def)
  }
qed


theorem normalize_substitutes_defaults_witness:
  "\<not> isl (DataProcessor sampleRuntime sampleProductData)
   \<and> \<not> isl (DataProcessor sampleRuntime noRecordsData)
   \<and> \<not> truthy (productData.totalRecords noRecordsData)
   \<and> marketData.totalRecords (market (projr (DataProcessor sampleRuntime noRecordsData))) = ''0''
   \<and> avgTransactionValue (market (projr (DataProcessor sampleRuntime noRecordsData)))
       = marketData.totalValue (market (projr (DataProcessor sampleRuntime noRecordsData)))
   \<and> \<not> isl (DataProcessor sampleRuntime negativeRecordsData)
   \<and> truthy (productData.totalRecords negativeRecordsData)
   \<and> marketData.totalRecords (market (projr (DataProcessor sampleRuntime negativeRecordsData)))
       = ''-5''
   \<and> avgTransactionValue (market (projr (DataProcessor sampleRuntime negativeRecordsData)))
       = ''-$249,160,000''
   \<and> \<not> isl (DataProcessor sampleRuntime
          (sampleProductData \<lparr> productData.topSuppliers := None \<rparr>))
   \<and> \<not> isl (DataProcessor sampleRuntime
          (sampleProductData \<lparr> productData.topBuyers := Some [] \<rparr>))
   \<and> \<not> isl (DataProcessor sampleRuntime
          (sampleProductData \<lparr> productData.importingCountries := Some [] \<rparr>))
   \<and> \<not> isl (DataProcessor sampleRuntime
          (sampleProductData \<lparr> productData.exportingCountries := None \<rparr>))
   \<and> \<not> isl (DataProcessor sampleRuntime noListsData)
   \<and> orEmpty (productData.importingCountries noListsData) = []
   \<and> orEmpty (productData.exportingCountries noListsData) = []
   \<and> orEmpty (productData.topSuppliers noListsData) = []
   \<and> orEmpty (productData.topBuyers noListsData) = []
   \<and> geography.importingCountries (processedData.geography
        (projr (DataProcessor sampleRuntime noListsData))) = []
   \<and> geography.exportingCountries (processedData.geography
        (projr (DataProcessor sampleRuntime noListsData))) = []
   \<and> supplierData.topSuppliers (suppliers (projr (DataProcessor sampleRuntime noListsData))) = []
   \<and> buyerData.topBuyers (buyers (projr (DataProcessor sampleRuntime noListsData))) = []"
proof -
  have s: "\<not> isl (DataProcessor sampleRuntime sampleProductData)"
    using DataProcessor_sample [of sampleRuntime] by auto
  \<comment> \<open>replacing the record count\<close>
  have n0: "\<not> isl (DataProcessor sampleRuntime noRecordsData)"
    using normalize_substitutes_defaults [where rt = sampleRuntime and pd = sampleProductData
        and x = "Num (Fin 0)",
        THEN conjunct1] s
    by (simp add: noRecordsData_def)
  have n5: "\<not> isl (DataProcessor sampleRuntime negativeRecordsData)"
    using normalize_substitutes_defaults [where rt = sampleRuntime and pd = sampleProductData
        and x = "Num (Fin (- 5))",
        THEN conjunct1] s
    by (simp add: negativeRecordsData_def)
  \<comment> \<open>emptying a ranked list\<close>
  have e1: "orEmpty (None :: company list option) = []" "orEmpty (Some [] :: company list option) = []"
    by (simp_all add: orEmpty_def)
  have e2: "orEmpty (None :: countryRow list option) = []"
    "orEmpty (Some [] :: countryRow list option) = []"
    by (simp_all add: orEmpty_def)
  note l1 = normalize_substitutes_defaults [where rt = sampleRuntime and pd = sampleProductData
      and ls = None, THEN conjunct2, THEN conjunct1]
  note l2 = normalize_substitutes_defaults [where rt = sampleRuntime and pd = sampleProductData
      and ls = "Some []", THEN conjunct2, THEN conjunct1]
  note l3 = normalize_substitutes_defaults [where rt = sampleRuntime and pd = sampleProductData
      and cs = "Some []", THEN conjunct2, THEN conjunct2, THEN conjunct1]
  note l4 = normalize_substitutes_defaults [where rt = sampleRuntime and pd = sampleProductData
      and cs = None, THEN conjunct2, THEN conjunct2, THEN conjunct1]
  have ls: "\<not> isl (DataProcessor sampleRuntime
          (sampleProductData \<lparr> productData.topSuppliers := None \<rparr>))"
    "\<not> isl (DataProcessor sampleRuntime
          (sampleProductData \<lparr> productData.topBuyers := Some [] \<rparr>))"
    "\<not> isl (DataProcessor sampleRuntime
          (sampleProductData \<lparr> productData.importingCountries := Some [] \<rparr>))"
    "\<not> isl (DataProcessor sampleRuntime
          (sampleProductData \<lparr> productData.exportingCountries := None \<rparr>))"
    using l1 l2 l3 l4 s e1 e2 by simp_all
  have nl: "\<not> isl (DataProcessor sampleRuntime noListsData)"
    by (simp add: DataProcessor_isl noListsData_def orEmpty_def group_empty)
  \<comment> \<open>the views returned\<close>
  have v0: "DataProcessor sampleRuntime noRecordsData
              = Inr (projr (DataProcessor sampleRuntime noRecordsData))"
    using n0 by (cases "DataProcessor sampleRuntime noRecordsData") simp_all
  have v5: "DataProcessor sampleRuntime negativeRecordsData
              = Inr (projr (DataProcessor sampleRuntime negativeRecordsData))"
    using n5 by (cases "DataProcessor sampleRuntime negativeRecordsData") simp_all
  have vl: "DataProcessor sampleRuntime noListsData
              = Inr (projr (DataProcessor sampleRuntime noListsData))"
    using nl by (cases "DataProcessor sampleRuntime noListsData") simp_all
  have t0: "\<not> truthy (productData.totalRecords noRecordsData)"
    by (simp add: noRecordsData_def)
  have t5: "truthy (productData.totalRecords negativeRecordsData)"
    by (simp add: negativeRecordsData_def)
  have el: "orEmpty (productData.importingCountries noListsData) = []"
    "orEmpty (productData.exportingCountries noListsData) = []"
    "orEmpty (productData.topSuppliers noListsData) = []"
    "orEmpty (productData.topBuyers noListsData) = []"
    by (simp_all add: noListsData_def orEmpty_def)
  note r0 = normalize_substitutes_defaults [where rt = sampleRuntime and pd = noRecordsData
      and v = "projr (DataProcessor sampleRuntime noRecordsData)",
      THEN conjunct2, THEN conjunct2, THEN conjunct2, THEN mp, OF v0]
  note r5 = normalize_substitutes_defaults [where rt = sampleRuntime and pd = negativeRecordsData
      and v = "projr (DataProcessor sampleRuntime negativeRecordsData)",
      THEN conjunct2, THEN conjunct2, THEN conjunct2, THEN mp, OF v5]
  note rl = normalize_substitutes_defaults [where rt = sampleRuntime and pd = noListsData
      and v = "projr (DataProcessor sampleRuntime noListsData)",
      THEN conjunct2, THEN conjunct2, THEN conjunct2, THEN mp, OF vl]
  have a0: "marketData.totalRecords (market (projr (DataProcessor sampleRuntime noRecordsData))) = ''0''
      \<and> avgTransactionValue (market (projr (DataProcessor sampleRuntime noRecordsData)))
        = marketData.totalValue (market (projr (DataProcessor sampleRuntime noRecordsData)))"
    using r0 t0 by simp
  have d5: "intlDecimal (toNumber (productData.totalRecords negativeRecordsData)) = ''-5''"
    by (simp add: negativeRecordsData_def show_eval stripZeros_def)
  have c5: "formatCurrency (Num (jsDiv (orNum (productData.totalValue negativeRecordsData) 0)
                (toNumber (productData.totalRecords negativeRecordsData)))) = ''-$249,160,000''"
    by (simp add: negativeRecordsData_def sampleProductData_def formatCurrency_def orNum_def
        show_eval)
  have a5: "marketData.totalRecords (market (projr (DataProcessor sampleRuntime negativeRecordsData)))
        = ''-5''
      \<and> avgTransactionValue (market (projr (DataProcessor sampleRuntime negativeRecordsData)))
        = ''-$249,160,000''"
    using r5 t5 by (simp add: d5 c5)
  have al: "geography.importingCountries (processedData.geography
        (projr (DataProcessor sampleRuntime noListsData))) = []
      \<and> geography.exportingCountries (processedData.geography
        (projr (DataProcessor sampleRuntime noListsData))) = []
      \<and> supplierData.topSuppliers (suppliers (projr (DataProcessor sampleRuntime noListsData))) = []
      \<and> buyerData.topBuyers (buyers (projr (DataProcessor sampleRuntime noListsData))) = []"
    using rl el by simp
  from s n0 t0 a0 n5 t5 a5 ls nl el al show ?thesis
    by simp
qed


text \<open>
  Claim C6. The total value of a generated record is formatted from a quantity and a
  price drawn afresh by \<open>generateRandomValue\<close>, not from the record's own quantity and
  unit price. In the sample run the first record has quantity \<open>100\<close> and unit price
  \<open>$43,751\<close> but total value \<open>$223,127,652\<close>; its own quantity times its own price
  would read \<open>$4,375,052\<close>.
\<close>

theorem total_value_not_quantity_times_price:
  "quantity (generateShipmentRecords sampleRuntime sampleProductData ! 0) = Fin 100
   \<and> unitPrice (generateShipmentRecords sampleRuntime sampleProductData ! 0) = ''$43,751''
   \<and> shipmentRecord.totalValue (generateShipmentRecords sampleRuntime sampleProductData ! 0)
       = ''$223,127,652''
   \<and> formatCurrency (Num (jsMul (generateRandomQuantity (mathRandom sampleRuntime 1))
         (generateRandomPrice sampleProductData (mathRandom sampleRuntime 2)))) = ''$4,375,052''"
  by (simp add: generateShipmentRecords_nth shipmentRecordAt_def Let_def sampleRuntime_def
      generateRandomQuantity_def generateRandomPrice_def generateRandomValue_def
      sampleProductData_def formatCurrency_def orNum_def show_eval)


text \<open>
  Claim C7. \<open>generateShipmentRecords\<close> returns exactly 2340 records with the ids
  \<open>1, \<dots>, 2340\<close> in order, and at every index \<open>i\<close> the supplier's name and country are
  those of \<open>topSuppliers[i mod length]\<close> and the buyer's name and country those of
  \<open>topBuyers[i mod length]\<close>, when the list is not empty; on an empty list the record
  names the unknown supplier or buyer.
\<close>

theorem shipment_records_round_robin:
  "length (generateShipmentRecords rt pd) = 2340
   \<and> map shipmentRecord.id' (generateShipmentRecords rt pd) = [1..2340]
   \<and> (\<forall>i < 2340.
        (orEmpty (productData.topSuppliers pd) \<noteq> [] \<longrightarrow>
           supplier (generateShipmentRecords rt pd ! i)
             = company.name (orEmpty (productData.topSuppliers pd)
                 ! (i mod length (orEmpty (productData.topSuppliers pd))))
           \<and> supplierCountry (generateShipmentRecords rt pd ! i)
             = company.country (orEmpty (productData.topSuppliers pd)
                 ! (i mod length (orEmpty (productData.topSuppliers pd)))))
        \<and> (orEmpty (productData.topBuyers pd) \<noteq> [] \<longrightarrow>
           buyer (generateShipmentRecords rt pd ! i)
             = company.name (orEmpty (productData.topBuyers pd)
                 ! (i mod length (orEmpty (productData.topBuyers pd))))
           \<and> buyerCountry (generateShipmentRecords rt pd ! i)
             = company.country (orEmpty (productData.topBuyers pd)
                 ! (i mod length (orEmpty (productData.topBuyers pd)))))
        \<and> (orEmpty (productData.topSuppliers pd) = [] \<longrightarrow>
           supplier (generateShipmentRecords rt pd ! i) = ''Unknown Supplier''
           \<and> supplierCountry (generateShipmentRecords rt pd ! i) = ''Unknown'')
        \<and> (orEmpty (productData.topBuyers pd) = [] \<longrightarrow>
           buyer (generateShipmentRecords rt pd ! i) = ''Unknown Buyer''
           \<and> buyerCountry (generateShipmentRecords rt pd ! i) = ''Unknown''))"
  by (simp add: generateShipmentRecords_length generateShipmentRecords_ids
      generateShipmentRecords_nth shipmentRecordAt_def pick_def Let_def
      unknownSupplier_def unknownBuyer_def)

theorem shipment_records_round_robin_witness:
  "(16::nat) < 2340
   \<and> orEmpty (productData.topSuppliers sampleProductData) \<noteq> []
   \<and> orEmpty (productData.topBuyers sampleProductData) \<noteq> []
   \<and> supplier (generateShipmentRecords sampleRuntime sampleProductData ! 16) = ''Pfizer Inc''
   \<and> supplierCountry (generateShipmentRecords sampleRuntime sampleProductData ! 16) = ''USA''
   \<and> buyer (generateShipmentRecords sampleRuntime sampleProductData ! 16) = ''Mayo Clinic''
   \<and> buyerCountry (generateShipmentRecords sampleRuntime sampleProductData ! 16) = ''USA''
   \<and> orEmpty (productData.topSuppliers noListsData) = []
   \<and> orEmpty (productData.topBuyers noListsData) = []
   \<and> supplier (generateShipmentRecords sampleRuntime noListsData ! 16) = ''Unknown Supplier''
   \<and> buyer (generateShipmentRecords sampleRuntime noListsData ! 16) = ''Unknown Buyer''"
proof -
  have s: "orEmpty (productData.topSuppliers sampleProductData)
            = [\<lparr> company.name = ''Bristol-Myers Squibb'', company.country = ''USA'',
                 company.value = Num (Fin 245000000) \<rparr>,
               \<lparr> company.name = ''Pfizer Inc'', company.country = ''USA'',
                 company.value = Num (Fin 187000000) \<rparr>,
               \<lparr> company.name = ''Cipla Ltd'', company.country = ''India'',
                 company.value = Num (Fin 156000000) \<rparr>]"
    by (simp add: sampleProductData_def orEmpty_def)
  have b: "orEmpty (productData.topBuyers sampleProductData)
            = [\<lparr> company.name = ''Memorial Sloan Kettering'', company.country = ''USA'',
                 company.value = Num (Fin 187000000) \<rparr>,
               \<lparr> company.name = ''Mayo Clinic'', company.country = ''USA'',
                 company.value = Num (Fin 165000000) \<rparr>,
               \<lparr> company.name = ''NHS England'', company.country = ''UK'',
                 company.value = Num (Fin 143000000) \<rparr>]"
    by (simp add: sampleProductData_def orEmpty_def)
  have n: "orEmpty (productData.topSuppliers noListsData) = []"
    "orEmpty (productData.topBuyers noListsData) = []"
    by (simp_all add: noListsData_def orEmpty_def)
  have i: "(16::nat) < 2340" by simp
  note r1 = shipment_records_round_robin [of sampleRuntime sampleProductData,
      THEN conjunct2, THEN conjunct2, THEN spec, of 16]
  note r2 = shipment_records_round_robin [of sampleRuntime noListsData,
      THEN conjunct2, THEN conjunct2, THEN spec, of 16]
  have "supplier (generateShipmentRecords sampleRuntime sampleProductData ! 16) = ''Pfizer Inc''
      \<and> supplierCountry (generateShipmentRecords sampleRuntime sampleProductData ! 16) = ''USA''
      \<and> buyer (generateShipmentRecords sampleRuntime sampleProductData ! 16) = ''Mayo Clinic''
      \<and> buyerCountry (generateShipmentRecords sampleRuntime sampleProductData ! 16) = ''USA''"
    using r1 i by (simp add: s b)
  moreover have "supplier (generateShipmentRecords sampleRuntime noListsData ! 16)
                   = ''Unknown Supplier''
      \<and> buyer (generateShipmentRecords sampleRuntime noListsData ! 16) = ''Unknown Buyer''"
    using r2 i n by simp
  ultimately show ?thesis
    using i n by (simp add: s b)
qed


text \<open>
  Claim C8, as stated, fails: the helpers are not total on every value.
  \<open>formatPercentage\<close> raises a \<open>TypeError\<close> on the string \<open>'12'\<close>, on \<open>true\<close> and on a
  symbol, and \<open>formatNumber\<close> and \<open>formatCurrency\<close> raise one on a symbol.
\<close>

theorem format_not_total_counterexample:
  "formatPercentageAny (numberToString sampleRuntime) (Str ''12'')
     = Inl (TypeError ''(value || 0).toFixed is not a function'')
   \<and> formatPercentageAny (numberToString sampleRuntime) (Bool True)
     = Inl (TypeError ''(value || 0).toFixed is not a function'')
   \<and> formatPercentageAny (numberToString sampleRuntime) Symbol
     = Inl (TypeError ''(value || 0).toFixed is not a function'')
   \<and> formatNumberAny sampleStringToNumber Symbol
     = Inl (TypeError ''Cannot convert a Symbol value to a number'')
   \<and> formatCurrencyAny sampleStringToNumber Symbol
     = Inl (TypeError ''Cannot convert a Symbol value to a number'')"
  by (simp add: formatPercentageAny_def formatNumberAny_def formatCurrencyAny_def orZero_def)


text \<open>
  Claim C8, amended. On a number (\<open>NaN\<close> and the infinities included), on \<open>undefined\<close> and
  on \<open>null\<close> the three formatting helpers never fail: they return the string that the
  helper on field values computes. They format \<open>undefined\<close>, \<open>null\<close> (and \<open>NaN\<close>) as they
  format \<open>0\<close>, that is as \<open>$0\<close>, \<open>0\<close> and \<open>0.0%\<close>; in particular
  \<open>formatCurrency(undefined) = formatCurrency(0)\<close>.
\<close>

theorem format_total_on_fields:
  "formatCurrencyAny stringToNumber (Field v) = Inr (formatCurrency v)
   \<and> formatNumberAny stringToNumber (Field v) = Inr (formatNumber v)
   \<and> formatPercentageAny expStr (Field v) = Inr (formatPercentage expStr v)
   \<and> formatCurrencyAny stringToNumber (Field Undefined) = Inr ''$0''
   \<and> formatCurrencyAny stringToNumber (Field Null) = Inr ''$0''
   \<and> formatCurrencyAny stringToNumber (Field (Num NaN)) = Inr ''$0''
   \<and> formatCurrencyAny stringToNumber (Field (Num (Fin 0))) = Inr ''$0''
   \<and> formatNumberAny stringToNumber (Field Undefined) = Inr ''0''
   \<and> formatNumberAny stringToNumber (Field Null) = Inr ''0''
   \<and> formatNumberAny stringToNumber (Field (Num NaN)) = Inr ''0''
   \<and> formatNumberAny stringToNumber (Field (Num (Fin 0))) = Inr ''0''
   \<and> formatPercentageAny expStr (Field Undefined) = Inr ''0.0%''
   \<and> formatPercentageAny expStr (Field Null) = Inr ''0.0%''
   \<and> formatPercentageAny expStr (Field (Num NaN)) = Inr ''0.0%''
   \<and> formatPercentageAny expStr (Field (Num (Fin 0))) = Inr ''0.0%''
   \<and> formatCurrency Undefined = formatCurrency (Num (Fin 0))
   \<and> formatCurrency Null = formatCurrency (Num (Fin 0))
   \<and> formatCurrency (Num NaN) = formatCurrency (Num (Fin 0))
   \<and> formatNumber Undefined = formatNumber (Num (Fin 0))
   \<and> formatNumber Null = formatNumber (Num (Fin 0))
   \<and> formatNumber (Num NaN) = formatNumber (Num (Fin 0))
   \<and> formatPercentage expStr Undefined = formatPercentage expStr (Num (Fin 0))
   \<and> formatPercentage expStr Null = formatPercentage expStr (Num (Fin 0))
   \<and> formatPercentage expStr (Num NaN) = formatPercentage expStr (Num (Fin 0))"
  by (simp add: formatCurrencyAny_Field formatNumberAny_Field formatPercentageAny_Field
      formatCurrency_def formatNumber_def formatPercentage_def orNum_def
      show_eval stripZeros_def)


text \<open>
  Claim C9, as stated, fails: on the sample data (total value 1245800000, 28456 records)
  the average transaction value is not displayed as \<open>$43,776\<close>.
\<close>

theorem avgTransactionValue_sample_counterexample:
  "avgTransactionValue (processMarketData sampleRuntime sampleProductData) \<noteq> ''$43,776''"
  by (simp add: processMarketData_def sampleProductData_def formatCurrency_def orNum_def show_eval)

text \<open>
  Claim C9, amended. With a total value of 1245800000 and 28456 records the average
  transaction value, 43779.87\<dots>, is displayed rounded to whole dollars as \<open>$43,780\<close>.
\<close>

theorem avgTransactionValue_scenario:
  assumes "productData.totalValue pd = Num (Fin 1245800000)"
    and "productData.totalRecords pd = Num (Fin 28456)"
  shows "avgTransactionValue (processMarketData rt pd) = ''$43,780''"
  by (simp add: processMarketData_def assms formatCurrency_def orNum_def show_eval)

theorem avgTransactionValue_scenario_witness:
  "productData.totalValue sampleProductData = Num (Fin 1245800000)
   \<and> productData.totalRecords sampleProductData = Num (Fin 28456)
   \<and> avgTransactionValue (processMarketData sampleRuntime sampleProductData) = ''$43,780''"
proof -
  have a: "productData.totalValue sampleProductData = Num (Fin 1245800000)"
    by (simp add: sampleProductData_def)
  have b: "productData.totalRecords sampleProductData = Num (Fin 28456)"
    by (simp add: sampleProductData_def)
  show ?thesis
    using avgTransactionValue_scenario [OF a b, of sampleRuntime] a b by simp
qed


section \<open>Lemmas about the slide plan, the sections and the orchestrator\<close>





lemma plan_counts:
  "length (slides (slideStructure.foundation defineSlideStructure)) = 8"
  "length (slides (slideStructure.importingCountries defineSlideStructure)) = 15"
  "length (slides (slideStructure.exportingCountries defineSlideStructure)) = 16"
  "length (slides (slideStructure.supplierBuyer defineSlideStructure)) = 23"
  "length (slides (slideStructure.pricing defineSlideStructure)) = 1"
  "length (slides (slideStructure.shipmentRecords defineSlideStructure)) = 234"
  by (simp_all add: defineSlideStructure_def)

lemma generateAllSlides_sections:
  assumes "sectionModules.foundation secs (slides (slideStructure.foundation st)) = Inr a"
    and "sectionModules.importingCountries secs (slides (slideStructure.importingCountries st)) = Inr b"
    and "sectionModules.exportingCountries secs (slides (slideStructure.exportingCountries st)) = Inr c"
    and "sectionModules.supplierBuyer secs (slides (slideStructure.supplierBuyer st)) = Inr d"
    and "sectionModules.pricing secs (slides (slideStructure.pricing st)) = Inr e"
    and "sectionModules.shipmentRecords secs (slides (slideStructure.shipmentRecords st)) = Inr f"
  shows "generateAllSlides secs st =
     (if length a + length b + length c + length d + length e + length f \<noteq> 297
      then Inl (structureDeviation
                  (length a + length b + length c + length d + length e + length f))
      else Inr (a @ b @ c @ d @ e @ f))"
  by (simp add: generateAllSlides_def assms Let_def)

lemma generateAllSlides_Inr_length:
  assumes "generateAllSlides secs st = Inr out"
  shows "length out = 297"
  using assms
  by (auto simp: generateAllSlides_def Let_def split: sum.splits if_splits)

lemma generateEach_Inr_ids:
  assumes "generateEach gen ds = Inr out"
    and "\<And>d s. gen d = Inr s \<Longrightarrow> slide.id' s = slideDef.id' d"
  shows "map slide.id' out = map slideDef.id' ds"
  using assms(1)
proof (induction ds arbitrary: out)
  case Nil
  then show ?case by simp
next
  case (Cons d ds)
  then show ?case
    by (auto split: sum.splits dest: assms(2))
qed

lemma generateEach_fails:
  "d \<in> set ds \<Longrightarrow> gen d = Inl e \<Longrightarrow> \<exists>e'. generateEach gen ds = Inl e'"
  by (induction ds) (auto split: sum.splits)

lemma generateEach_first_failure:
  "generateEach gen pre = Inr out \<Longrightarrow> gen d = Inl e \<Longrightarrow> generateEach gen (pre @ d # post) = Inl e"
  by (induction pre arbitrary: out) (auto split: sum.splits)

lemma atRank_None_iff:
  "atRank xs r = None \<longleftrightarrow> (case r of None \<Rightarrow> True | Some k \<Rightarrow> k < 1 \<or> int (length xs) < k)"
  by (auto simp: atRank_def jsIndex_def split: option.splits)

lemma generateEach_all_ok:
  "\<forall>d \<in> set ds. \<not> isl (gen d) \<Longrightarrow> generateEach gen ds = Inr (map (\<lambda>d. projr (gen d)) ds)"
  by (induction ds) (auto split: sum.splits)

lemma sampleView_importing:
  "geography.importingCountries (processedData.geography sampleView)
     = mapIndex (rankCountry sampleRuntime) (orEmpty (productData.importingCountries sampleProductData))"
proof -
  have "DataProcessor sampleRuntime sampleProductData = Inr sampleView"
    unfolding sampleView_def by (rule Inr_projr) (rule DataProcessor_sample)
  from DataProcessor_Inr(1) [OF this] show ?thesis
    by (simp add: processGeographicData_def)
qed

lemma sampleView_importing_length:
  "length (geography.importingCountries (processedData.geography sampleView)) = 3"
  by (simp add: sampleView_importing length_mapIndex sampleProductData_def orEmpty_def)

lemma importing_plan_nth:
  "i < 5 \<Longrightarrow> slides (slideStructure.importingCountries defineSlideStructure) ! i
     = (plainSlide (9 + int i) ''importing_country_suppliers''
          (''Top '' @ showInt (int i + 1)
           @ '' Importing country- Who are the top 10 suppliers countries''))
        \<lparr> countryRank := Some (int i + 1) \<rparr>"
  "i < 10 \<Longrightarrow> slides (slideStructure.importingCountries defineSlideStructure) ! (5 + i)
     = (plainSlide (14 + int i) ''importing_country_companies''
          (''Top '' @ showInt (int i + 1)
           @ '' Importing country- Who are the top 10 suppliers companies''))
        \<lparr> countryRank := Some (int i + 1) \<rparr>"
  by (simp_all add: defineSlideStructure_def nth_append)

lemma sample_rank_found:
  "1 \<le> k \<Longrightarrow> k \<le> 3 \<Longrightarrow>
     atRank (geography.importingCountries (processedData.geography sampleView)) (Some k) \<noteq> None"
  by (simp add: atRank_None_iff sampleView_importing_length)

lemma sample_rank_missing:
  "atRank (geography.importingCountries (processedData.geography sampleView)) (Some 4) = None"
  by (simp add: atRank_None_iff sampleView_importing_length)

lemma rank4_message:
  "''Importing country at rank '' @ showRank (Some 4) @ '' not found''
     = ''Importing country at rank 4 not found''"
  by (simp add: showRank_def showInt_def show_eval)







lemma sectionOf_orchestrator:
  "sectionOf (orchestratorSections r data) sec = generateEach (slideOf r data sec)"
  by (cases sec)
     (auto simp: orchestratorSections_def foundationGenerateSlides_def
        importingGenerateSlides_def exportingGenerateSlides_def supplierBuyerGenerateSlides_def
        pricingGenerateSlides_def shipmentGenerateSlides_def)

lemma generatePlainSlide_id:
  "generatePlainSlide render d = Inr s \<Longrightarrow> slide.id' s = slideDef.id' d"
  by (auto simp: generatePlainSlide_def split: sum.splits)

lemma slideOf_id:
  "slideOf r data sec d = Inr s \<Longrightarrow> slide.id' s = slideDef.id' d"
  by (cases sec)
     (auto simp: foundationSlide_def importingSlide_def exportingSlide_def
        supplierBuyerSlide_def pricingSlide_def generatePlainSlide_def
        generateImportingCountrySuppliersSlide_def generateImportingCountryCompaniesSlide_def
        generateExportingCountryDestinationsSlide_def generateExportingCountryCompaniesSlide_def
        generateSupplierDetailedAnalysisSlide_def generateImporterDetailedAnalysisSlide_def
        generateShipmentRecordsSlide_def
        split: if_splits option.splits sum.splits)

lemma generateAllSlides_section_fails:
  "isl (sectionOf secs sec (entriesOf st sec)) \<Longrightarrow> isl (generateAllSlides secs st)"
  by (cases sec) (auto simp: generateAllSlides_def Let_def split: sum.splits)

lemma generateAllSlides_first_failure:
  assumes "\<forall>s \<in> set (earlier sec). \<not> isl (sectionOf secs s (entriesOf st s))"
    and "sectionOf secs sec (entriesOf st sec) = Inl e"
  shows "generateAllSlides secs st = Inl e"
  using assms
  by (cases sec) (auto simp: generateAllSlides_def Let_def split: sum.splits)

lemma generateAllSlides_error_source:
  assumes "generateAllSlides secs st = Inl e"
  shows "(\<exists>sec. sectionOf secs sec (entriesOf st sec) = Inl e) \<or> (\<exists>n. e = structureDeviation n)"
proof -
  consider (f) "sectionOf secs Foundation (entriesOf st Foundation) = Inl e"
    | (i) "sectionOf secs ImportingCountries (entriesOf st ImportingCountries) = Inl e"
    | (x) "sectionOf secs ExportingCountries (entriesOf st ExportingCountries) = Inl e"
    | (s) "sectionOf secs SupplierBuyer (entriesOf st SupplierBuyer) = Inl e"
    | (p) "sectionOf secs Pricing (entriesOf st Pricing) = Inl e"
    | (r) "sectionOf secs ShipmentRecords (entriesOf st ShipmentRecords) = Inl e"
    | (d) "\<exists>n. e = structureDeviation n"
    using assms
    by (auto simp: generateAllSlides_def Let_def split: sum.splits if_splits)
  then show ?thesis
    by cases blast+
qed

lemma unknown_type_fails:
  "slideDef.type d \<notin> set foundationTypes \<Longrightarrow> foundationSlide p d = Inl (unknownSlideType d)"
  "slideDef.type d \<notin> set [''importing_country_suppliers'', ''importing_country_companies'']
     \<Longrightarrow> importingSlide data c d = Inl (unknownSlideType d)"
  "slideDef.type d \<notin> set [''top_exporting_countries'', ''exporting_country_destinations'',
       ''exporting_country_companies'']
     \<Longrightarrow> exportingSlide data p c d = Inl (unknownSlideType d)"
  "slideDef.type d \<notin> set [''supplier_buyer_intelligence'', ''top_suppliers_analysis'',
       ''supplier_detailed_analysis'', ''top_importers_analysis'', ''importer_detailed_analysis'']
     \<Longrightarrow> supplierBuyerSlide data p k d = Inl (unknownSlideType d)"
  "slideDef.type d \<noteq> ''pricing_analysis'' \<Longrightarrow> pricingSlide p d = Inl (unknownSlideType d)"
  by (simp_all add: foundationSlide_def importingSlide_def exportingSlide_def
      supplierBuyerSlide_def pricingSlide_def unknownSlideType_def)

lemma missing_rank_fails:
  "slideDef.type d \<in> set [''importing_country_suppliers'', ''importing_country_companies'']
     \<Longrightarrow> atRank (geography.importingCountries (processedData.geography data)) (countryRank d) = None
     \<Longrightarrow> importingSlide data c d
           = Inl (Error (''Importing country at rank '' @ showRank (countryRank d) @ '' not found''))"
  "slideDef.type d \<in> set [''exporting_country_destinations'', ''exporting_country_companies'']
     \<Longrightarrow> atRank (geography.exportingCountries (processedData.geography data)) (countryRank d) = None
     \<Longrightarrow> exportingSlide data p c d
           = Inl (Error (''Exporting country at rank '' @ showRank (countryRank d) @ '' not found''))"
  "slideDef.type d = ''supplier_detailed_analysis''
     \<Longrightarrow> atRank (supplierData.topSuppliers (suppliers data)) (supplierRank d) = None
     \<Longrightarrow> supplierBuyerSlide data p k d
           = Inl (Error (''Supplier at rank '' @ showRank (supplierRank d) @ '' not found''))"
  "slideDef.type d = ''importer_detailed_analysis''
     \<Longrightarrow> atRank (buyerData.topBuyers (buyers data)) (importerRank d) = None
     \<Longrightarrow> supplierBuyerSlide data p k d
           = Inl (Error (''Importer at rank '' @ showRank (importerRank d) @ '' not found''))"
  by (auto simp: importingSlide_def exportingSlide_def supplierBuyerSlide_def
      generateImportingCountrySuppliersSlide_def generateImportingCountryCompaniesSlide_def
      generateExportingCountryDestinationsSlide_def generateExportingCountryCompaniesSlide_def
      generateSupplierDetailedAnalysisSlide_def generateImporterDetailedAnalysisSlide_def)

lemma section_slide_fails:
  assumes "d \<in> set ds" and "isl (slideOf r data sec d)"
  shows "isl (sectionOf (orchestratorSections r data) sec ds)"
proof -
  from assms(2) obtain e0 where e0: "slideOf r data sec d = Inl e0"
    by (cases "slideOf r data sec d") auto
  from generateEach_fails [of d ds "slideOf r data sec" e0, OF assms(1) e0]
  show ?thesis
    by (auto simp: sectionOf_orchestrator)
qed

lemma sampleView_Inr: "DataProcessor sampleRuntime sampleProductData = Inr sampleView"
  unfolding sampleView_def by (rule Inr_projr) (rule DataProcessor_sample)

lemma sampleView_lengths:
  "length (geography.exportingCountries (processedData.geography sampleView)) = 3"
  "length (supplierData.topSuppliers (suppliers sampleView)) = 3"
  "length (buyerData.topBuyers (buyers sampleView)) = 3"
  by (simp_all add: DataProcessor_Inr [OF sampleView_Inr] processGeographicData_def
      length_mapIndex sampleProductData_def orEmpty_def)

lemma sample_ranks_missing:
  "atRank (geography.exportingCountries (processedData.geography sampleView)) (Some 4) = None"
  "atRank (supplierData.topSuppliers (suppliers sampleView)) (Some 4) = None"
  "atRank (buyerData.topBuyers (buyers sampleView)) (Some 4) = None"
  by (simp_all add: atRank_None_iff sampleView_lengths)

lemma plan_entries:
  "slides (slideStructure.exportingCountries defineSlideStructure) ! 4
     = (plainSlide 28 ''exporting_country_destinations''
          (''Top '' @ showInt 4
           @ '' Exporting country- Who are the top 10 destination countries''))
        \<lparr> countryRank := Some 4 \<rparr>"
  "slides (slideStructure.supplierBuyer defineSlideStructure) ! 5
     = (plainSlide 45 ''supplier_detailed_analysis''
          (''Top '' @ showInt 4
           @ '' Supplier detailed analysis- price, number of destination countries, market share and charts''))
        \<lparr> supplierRank := Some 4 \<rparr>"
  "slides (slideStructure.supplierBuyer defineSlideStructure) ! 16
     = (plainSlide 56 ''importer_detailed_analysis''
          (''Top '' @ showInt 4
           @ '' Importer detailed analysis- price, market share, number of suppliers countries and charts''))
        \<lparr> importerRank := Some 4 \<rparr>"
  "slides (slideStructure.shipmentRecords defineSlideStructure) ! 0
     = (plainSlide 67 ''shipment_records'' (''Shipment Records '' @ showInt 1))
        \<lparr> recordStart := Some 1, recordEnd := Some 10 \<rparr>"
  by (simp_all add: defineSlideStructure_def nth_append)

lemma rank4_text: "showRank (Some 4) = ''4''"
  by (simp add: showRank_def showInt_def show_eval)

lemma foundation_blank_ok:
  "\<not> isl (sectionOf (orchestratorSections blankRenderers sampleView) Foundation
            (entriesOf defineSlideStructure Foundation))"
proof -
  have "\<forall>d \<in> set (slides (slideStructure.foundation defineSlideStructure)).
          \<not> isl (foundationSlide (plain blankRenderers) d)"
    by (simp add: defineSlideStructure_def plainSlide_def foundationSlide_def
        foundationTypes_def generatePlainSlide_def blankRenderers_def)
  from generateEach_all_ok [OF this] show ?thesis
    unfolding sectionOf_orchestrator by simp
qed


section \<open>The claims about the slide plan and the orchestrator\<close>

text \<open>
  Claim C1. The plan of \<open>defineSlideStructure\<close> has 8, 15, 16, 23, 1 and 234 entries,
  234 being the \<open>ceil(2340 / 10)\<close> that \<open>processShipmentData\<close> computes, which sum to 297. For any six section modules,
  \<open>generateAllSlides\<close> returns slides only when their number is exactly 297; when all six
  sections return and the total is anything else, it throws the structure-deviation
  error naming the total, and the driver writes no document.
\<close>

theorem slide_count_validated:
  "map (\<lambda>s. length (slides s))
     [slideStructure.foundation defineSlideStructure,
      slideStructure.importingCountries defineSlideStructure,
      slideStructure.exportingCountries defineSlideStructure,
      slideStructure.supplierBuyer defineSlideStructure,
      slideStructure.pricing defineSlideStructure,
      slideStructure.shipmentRecords defineSlideStructure] = [8, 15, 16, 23, 1, 234]
   \<and> sum_list (map (\<lambda>s. length (slides s))
     [slideStructure.foundation defineSlideStructure,
      slideStructure.importingCountries defineSlideStructure,
      slideStructure.exportingCountries defineSlideStructure,
      slideStructure.supplierBuyer defineSlideStructure,
      slideStructure.pricing defineSlideStructure,
      slideStructure.shipmentRecords defineSlideStructure]) = 297
   \<and> (generateAllSlides secs st = Inr out \<longrightarrow> length out = 297)
   \<and> (sectionModules.foundation secs (slides (slideStructure.foundation st)) = Inr a
      \<and> sectionModules.importingCountries secs (slides (slideStructure.importingCountries st)) = Inr b
      \<and> sectionModules.exportingCountries secs (slides (slideStructure.exportingCountries st)) = Inr c
      \<and> sectionModules.supplierBuyer secs (slides (slideStructure.supplierBuyer st)) = Inr d
      \<and> sectionModules.pricing secs (slides (slideStructure.pricing st)) = Inr e
      \<and> sectionModules.shipmentRecords secs (slides (slideStructure.shipmentRecords st)) = Inr f
      \<longrightarrow>
        (length a + length b + length c + length d + length e + length f = 297
           \<longrightarrow> generateAllSlides secs st = Inr (a @ b @ c @ d @ e @ f))
        \<and> (length a + length b + length c + length d + length e + length f \<noteq> 297
           \<longrightarrow> generateAllSlides secs st
                 = Inl (structureDeviation
                     (length a + length b + length c + length d + length e + length f))
               \<and> outputFile (generatePresentation exportToHTML secs st) = None
               \<and> \<not> success (generatePresentation exportToHTML secs st)))
   \<and> totalSlides (processShipmentData rt pd) = 234"
proof -
  have "totalSlides (processShipmentData rt pd) = 234"
  proof -
    have "(2340 :: rat) / 10 = of_int 234" by simp
    then have "nat \<lceil>(2340 :: rat) / 10\<rceil> = 234"
      by (simp only: ceiling_of_int nat_numeral)
    then show ?thesis
      by (simp add: processShipmentData_def Let_def generateShipmentRecords_length)
  qed
  moreover have "generateAllSlides secs st = Inr out \<longrightarrow> length out = 297"
    using generateAllSlides_Inr_length by blast
  moreover have "sectionModules.foundation secs (slides (slideStructure.foundation st)) = Inr a
      \<and> sectionModules.importingCountries secs (slides (slideStructure.importingCountries st)) = Inr b
      \<and> sectionModules.exportingCountries secs (slides (slideStructure.exportingCountries st)) = Inr c
      \<and> sectionModules.supplierBuyer secs (slides (slideStructure.supplierBuyer st)) = Inr d
      \<and> sectionModules.pricing secs (slides (slideStructure.pricing st)) = Inr e
      \<and> sectionModules.shipmentRecords secs (slides (slideStructure.shipmentRecords st)) = Inr f
      \<longrightarrow>
        (length a + length b + length c + length d + length e + length f = 297
           \<longrightarrow> generateAllSlides secs st = Inr (a @ b @ c @ d @ e @ f))
        \<and> (length a + length b + length c + length d + length e + length f \<noteq> 297
           \<longrightarrow> generateAllSlides secs st
                 = Inl (structureDeviation
                     (length a + length b + length c + length d + length e + length f))
               \<and> outputFile (generatePresentation exportToHTML secs st) = None
               \<and> \<not> success (generatePresentation exportToHTML secs st))"
  proof (intro impI, elim conjE)
    assume h: "sectionModules.foundation secs (slides (slideStructure.foundation st)) = Inr a"
      "sectionModules.importingCountries secs (slides (slideStructure.importingCountries st)) = Inr b"
      "sectionModules.exportingCountries secs (slides (slideStructure.exportingCountries st)) = Inr c"
      "sectionModules.supplierBuyer secs (slides (slideStructure.supplierBuyer st)) = Inr d"
      "sectionModules.pricing secs (slides (slideStructure.pricing st)) = Inr e"
      "sectionModules.shipmentRecords secs (slides (slideStructure.shipmentRecords st)) = Inr f"
    note g = generateAllSlides_sections [OF h]
    show "(length a + length b + length c + length d + length e + length f = 297
           \<longrightarrow> generateAllSlides secs st = Inr (a @ b @ c @ d @ e @ f))
        \<and> (length a + length b + length c + length d + length e + length f \<noteq> 297
           \<longrightarrow> generateAllSlides secs st
                 = Inl (structureDeviation
                     (length a + length b + length c + length d + length e + length f))
               \<and> outputFile (generatePresentation exportToHTML secs st) = None
               \<and> \<not> success (generatePresentation exportToHTML secs st))"
      by (simp add: g generatePresentation_def)
  qed
  ultimately show ?thesis
    by (simp only: plan_counts list.map) simp
qed

theorem slide_count_validated_witness:
  "length (projr (generateAllSlides sampleModules defineSlideStructure)) = 297
   \<and> \<not> isl (generateAllSlides sampleModules defineSlideStructure)
   \<and> generateAllSlides shortModules defineSlideStructure = Inl (structureDeviation 296)
   \<and> outputFile (generatePresentation (\<lambda>ss. []) shortModules defineSlideStructure) = None"
proof -
  let ?st = defineSlideStructure
  let ?e = "\<lambda>s :: slideSection. map echoSlide (slides s)"
  have e: "echoSection (slides s) = Inr (?e s)" for s :: slideSection
    by (simp add: echoSection_def)
  have l: "length (?e s) = length (slides s)" for s :: slideSection
    by simp
  have s1: "sectionModules.foundation sampleModules (slides (slideStructure.foundation ?st)) = Inr (?e (slideStructure.foundation ?st))"
    "sectionModules.importingCountries sampleModules (slides (slideStructure.importingCountries ?st)) = Inr (?e (slideStructure.importingCountries ?st))"
    "sectionModules.exportingCountries sampleModules (slides (slideStructure.exportingCountries ?st)) = Inr (?e (slideStructure.exportingCountries ?st))"
    "sectionModules.supplierBuyer sampleModules (slides (slideStructure.supplierBuyer ?st)) = Inr (?e (slideStructure.supplierBuyer ?st))"
    "sectionModules.pricing sampleModules (slides (slideStructure.pricing ?st)) = Inr (?e (slideStructure.pricing ?st))"
    "sectionModules.shipmentRecords sampleModules (slides (slideStructure.shipmentRecords ?st)) = Inr (?e (slideStructure.shipmentRecords ?st))"
    by (simp_all add: sampleModules_def e)
  have s2: "sectionModules.foundation shortModules (slides (slideStructure.foundation ?st)) = Inr (?e (slideStructure.foundation ?st))"
    "sectionModules.importingCountries shortModules (slides (slideStructure.importingCountries ?st)) = Inr (?e (slideStructure.importingCountries ?st))"
    "sectionModules.exportingCountries shortModules (slides (slideStructure.exportingCountries ?st)) = Inr (?e (slideStructure.exportingCountries ?st))"
    "sectionModules.supplierBuyer shortModules (slides (slideStructure.supplierBuyer ?st)) = Inr (?e (slideStructure.supplierBuyer ?st))"
    "sectionModules.pricing shortModules (slides (slideStructure.pricing ?st)) = Inr []"
    "sectionModules.shipmentRecords shortModules (slides (slideStructure.shipmentRecords ?st)) = Inr (?e (slideStructure.shipmentRecords ?st))"
    by (simp_all add: shortModules_def sampleModules_def e)
  note t1 = slide_count_validated [of sampleModules ?st
      "projr (generateAllSlides sampleModules ?st)" "?e (slideStructure.foundation ?st)"
      "?e (slideStructure.importingCountries ?st)" "?e (slideStructure.exportingCountries ?st)"
      "?e (slideStructure.supplierBuyer ?st)" "?e (slideStructure.pricing ?st)"
      "?e (slideStructure.shipmentRecords ?st)" "\<lambda>ss. []"]
  note t2 = slide_count_validated [of shortModules ?st
      "[]" "?e (slideStructure.foundation ?st)"
      "?e (slideStructure.importingCountries ?st)" "?e (slideStructure.exportingCountries ?st)"
      "?e (slideStructure.supplierBuyer ?st)" "[]"
      "?e (slideStructure.shipmentRecords ?st)" "\<lambda>ss. []"]
  have a: "generateAllSlides sampleModules ?st
             = Inr (?e (slideStructure.foundation ?st) @ ?e (slideStructure.importingCountries ?st)
                 @ ?e (slideStructure.exportingCountries ?st) @ ?e (slideStructure.supplierBuyer ?st)
                 @ ?e (slideStructure.pricing ?st) @ ?e (slideStructure.shipmentRecords ?st))"
    using t1 s1 by (simp add: l plan_counts)
  have b: "generateAllSlides shortModules ?st = Inl (structureDeviation 296)
           \<and> outputFile (generatePresentation (\<lambda>ss. []) shortModules ?st) = None"
    using t2 s2 by (simp add: l plan_counts)
  from a b show ?thesis
    by (simp add: l plan_counts)
qed







text \<open>
  Claim C10, as stated, fails on the slide id: slides 12 and 17 of the plan both ask for
  the importing country of rank 4, and on a view with three importing countries each
  fails with the same error, which names the rank and not the slide.
\<close>

theorem error_does_not_name_slide_counterexample:
  "slideDef.id' (slides (slideStructure.importingCountries defineSlideStructure) ! 3) = 12
   \<and> slideDef.id' (slides (slideStructure.importingCountries defineSlideStructure) ! 8) = 17
   \<and> importingGenerateSlides sampleView blankRender
        [slides (slideStructure.importingCountries defineSlideStructure) ! 3]
       = Inl (Error ''Importing country at rank 4 not found'')
   \<and> importingGenerateSlides sampleView blankRender
        [slides (slideStructure.importingCountries defineSlideStructure) ! 8]
       = Inl (Error ''Importing country at rank 4 not found'')"
proof -
  have a: "slides (slideStructure.importingCountries defineSlideStructure) ! 3
     = (plainSlide 12 ''importing_country_suppliers''
          (''Top '' @ showInt 4
           @ '' Importing country- Who are the top 10 suppliers countries''))
        \<lparr> countryRank := Some 4 \<rparr>"
    using importing_plan_nth(1) [of 3] by simp
  have b: "slides (slideStructure.importingCountries defineSlideStructure) ! 8
     = (plainSlide 17 ''importing_country_companies''
          (''Top '' @ showInt 4
           @ '' Importing country- Who are the top 10 suppliers companies''))
        \<lparr> countryRank := Some 4 \<rparr>"
    using importing_plan_nth(2) [of 3] by simp
  show ?thesis
    unfolding a b
    by (simp add: importingGenerateSlides_def importingSlide_def plainSlide_def
        generateImportingCountrySuppliersSlide_def generateImportingCountryCompaniesSlide_def
        sample_rank_missing rank4_message [simplified])
qed


text \<open>
  Claim C10, amended. In the foundation, importing-countries, exporting-countries,
  supplier-buyer and pricing sections a slide definition of a type that the section does
  not know fails with an error naming the type. In the importing-countries,
  exporting-countries and supplier-buyer sections a slide definition whose rank is
  outside its list (of importing countries, exporting countries, suppliers or buyers)
  fails with an error naming the rank. Neither message holds the slide id. In each of
  the six sections a failing slide makes the section fail, with the error of the first
  slide that fails, and a section that returns has made exactly one slide for each
  definition, in order, none skipped. A failing slide of any section of the plan, and a
  failing section, make \<open>generateAllSlides\<close> fail; the driver then reports failure and
  writes no document. The error of the run is that of the first section that fails, and
  a run fails only with the error of a section or with the deviation of the slide
  count.
\<close>

theorem missing_rank_aborts_run:
  "(slideDef.type d \<notin> set foundationTypes
      \<longrightarrow> foundationSlide (plain r) d = Inl (Error (''Unknown slide type: '' @ slideDef.type d)))
   \<and> (slideDef.type d \<notin> set [''importing_country_suppliers'', ''importing_country_companies'']
      \<longrightarrow> importingSlide data (byCountry r) d
            = Inl (Error (''Unknown slide type: '' @ slideDef.type d)))
   \<and> (slideDef.type d \<notin> set [''top_exporting_countries'', ''exporting_country_destinations'',
         ''exporting_country_companies'']
      \<longrightarrow> exportingSlide data (plain r) (byCountry r) d
            = Inl (Error (''Unknown slide type: '' @ slideDef.type d)))
   \<and> (slideDef.type d \<notin> set [''supplier_buyer_intelligence'', ''top_suppliers_analysis'',
         ''supplier_detailed_analysis'', ''top_importers_analysis'',
         ''importer_detailed_analysis'']
      \<longrightarrow> supplierBuyerSlide data (plain r) (byCompany r) d
            = Inl (Error (''Unknown slide type: '' @ slideDef.type d)))
   \<and> (slideDef.type d \<noteq> ''pricing_analysis''
      \<longrightarrow> pricingSlide (plain r) d = Inl (Error (''Unknown slide type: '' @ slideDef.type d)))
   \<and> (slideDef.type d \<in> set [''importing_country_suppliers'', ''importing_country_companies'']
      \<and> atRank (geography.importingCountries (processedData.geography data)) (countryRank d) = None
      \<longrightarrow> importingSlide data (byCountry r) d
            = Inl (Error (''Importing country at rank '' @ showRank (countryRank d)
                          @ '' not found'')))
   \<and> (slideDef.type d \<in> set [''exporting_country_destinations'', ''exporting_country_companies'']
      \<and> atRank (geography.exportingCountries (processedData.geography data)) (countryRank d) = None
      \<longrightarrow> exportingSlide data (plain r) (byCountry r) d
            = Inl (Error (''Exporting country at rank '' @ showRank (countryRank d)
                          @ '' not found'')))
   \<and> (slideDef.type d = ''supplier_detailed_analysis''
      \<and> atRank (supplierData.topSuppliers (suppliers data)) (supplierRank d) = None
      \<longrightarrow> supplierBuyerSlide data (plain r) (byCompany r) d
            = Inl (Error (''Supplier at rank '' @ showRank (supplierRank d) @ '' not found'')))
   \<and> (slideDef.type d = ''importer_detailed_analysis''
      \<and> atRank (buyerData.topBuyers (buyers data)) (importerRank d) = None
      \<longrightarrow> supplierBuyerSlide data (plain r) (byCompany r) d
            = Inl (Error (''Importer at rank '' @ showRank (importerRank d) @ '' not found'')))
   \<and> (d \<in> set ds \<and> isl (slideOf r data sec d)
      \<longrightarrow> isl (sectionOf (orchestratorSections r data) sec ds))
   \<and> (sectionOf (orchestratorSections r data) sec pre = Inr out
      \<and> slideOf r data sec d = Inl e
      \<longrightarrow> sectionOf (orchestratorSections r data) sec (pre @ d # post) = Inl e)
   \<and> (sectionOf (orchestratorSections r data) sec ds = Inr out
      \<longrightarrow> map slide.id' out = map slideDef.id' ds)
   \<and> (d \<in> set (entriesOf st sec) \<and> isl (slideOf r data sec d)
      \<longrightarrow> isl (generateAllSlides (orchestratorSections r data) st)
          \<and> \<not> success (generatePresentation exportToHTML (orchestratorSections r data) st)
          \<and> outputFile (generatePresentation exportToHTML (orchestratorSections r data) st) = None)
   \<and> (isl (sectionOf secs sec (entriesOf st sec))
      \<longrightarrow> isl (generateAllSlides secs st)
          \<and> \<not> success (generatePresentation exportToHTML secs st)
          \<and> outputFile (generatePresentation exportToHTML secs st) = None)
   \<and> ((\<forall>s \<in> set (earlier sec). \<not> isl (sectionOf secs s (entriesOf st s)))
      \<and> sectionOf secs sec (entriesOf st sec) = Inl e
      \<longrightarrow> generateAllSlides secs st = Inl e)
   \<and> (generateAllSlides secs st = Inl e
      \<longrightarrow> (\<exists>s. sectionOf secs s (entriesOf st s) = Inl e) \<or> (\<exists>n. e = structureDeviation n))"
proof -
  have run: "isl (generateAllSlides secs' st) \<Longrightarrow>
               \<not> success (generatePresentation exportToHTML secs' st)
               \<and> outputFile (generatePresentation exportToHTML secs' st) = None" for secs'
    by (cases "generateAllSlides secs' st") (simp_all add: generatePresentation_def)
  have a: "d \<in> set ds \<and> isl (slideOf r data sec d)
      \<longrightarrow> isl (sectionOf (orchestratorSections r data) sec ds)"
    using section_slide_fails by blast
  have b: "sectionOf (orchestratorSections r data) sec pre = Inr out
      \<and> slideOf r data sec d = Inl e
      \<longrightarrow> sectionOf (orchestratorSections r data) sec (pre @ d # post) = Inl e"
    using generateEach_first_failure [of "slideOf r data sec" pre out d e post]
    by (simp add: sectionOf_orchestrator)
  have c: "sectionOf (orchestratorSections r data) sec ds = Inr out
      \<longrightarrow> map slide.id' out = map slideDef.id' ds"
    using generateEach_Inr_ids [of "slideOf r data sec" ds out] slideOf_id
    by (auto simp: sectionOf_orchestrator)
  have f: "isl (sectionOf secs sec (entriesOf st sec))
      \<longrightarrow> isl (generateAllSlides secs st)
          \<and> \<not> success (generatePresentation exportToHTML secs st)
          \<and> outputFile (generatePresentation exportToHTML secs st) = None"
    using generateAllSlides_section_fails [of secs sec st] run [of secs] by blast
  have g: "d \<in> set (entriesOf st sec) \<and> isl (slideOf r data sec d)
      \<longrightarrow> isl (generateAllSlides (orchestratorSections r data) st)
          \<and> \<not> success (generatePresentation exportToHTML (orchestratorSections r data) st)
          \<and> outputFile (generatePresentation exportToHTML (orchestratorSections r data) st) = None"
    using section_slide_fails [of d "entriesOf st sec" r data sec]
      generateAllSlides_section_fails [of "orchestratorSections r data" sec st]
      run [of "orchestratorSections r data"]
    by blast
  have h: "(\<forall>s \<in> set (earlier sec). \<not> isl (sectionOf secs s (entriesOf st s)))
      \<and> sectionOf secs sec (entriesOf st sec) = Inl e
      \<longrightarrow> generateAllSlides secs st = Inl e"
    using generateAllSlides_first_failure [of sec secs st e] by blast
  have i: "generateAllSlides secs st = Inl e
      \<longrightarrow> (\<exists>s. sectionOf secs s (entriesOf st s) = Inl e) \<or> (\<exists>n. e = structureDeviation n)"
    using generateAllSlides_error_source [of secs st e] by blast
  from a b c f g h i show ?thesis
    using unknown_type_fails [of d] missing_rank_fails [of d data]
    by (simp add: unknownSlideType_def)
qed

theorem missing_rank_aborts_run_witness:
  "foundationSlide (plain blankRenderers)
       (slides (slideStructure.shipmentRecords defineSlideStructure) ! 0)
     = Inl (Error ''Unknown slide type: shipment_records'')
   \<and> importingSlide sampleView (byCountry blankRenderers)
       (slides (slideStructure.shipmentRecords defineSlideStructure) ! 0)
     = Inl (Error ''Unknown slide type: shipment_records'')
   \<and> exportingSlide sampleView (plain blankRenderers) (byCountry blankRenderers)
       (slides (slideStructure.shipmentRecords defineSlideStructure) ! 0)
     = Inl (Error ''Unknown slide type: shipment_records'')
   \<and> supplierBuyerSlide sampleView (plain blankRenderers) (byCompany blankRenderers)
       (slides (slideStructure.shipmentRecords defineSlideStructure) ! 0)
     = Inl (Error ''Unknown slide type: shipment_records'')
   \<and> pricingSlide (plain blankRenderers)
       (slides (slideStructure.shipmentRecords defineSlideStructure) ! 0)
     = Inl (Error ''Unknown slide type: shipment_records'')
   \<and> importingSlide sampleView (byCountry blankRenderers)
        (slides (slideStructure.importingCountries defineSlideStructure) ! 3)
       = Inl (Error ''Importing country at rank 4 not found'')
   \<and> exportingSlide sampleView (plain blankRenderers) (byCountry blankRenderers)
        (slides (slideStructure.exportingCountries defineSlideStructure) ! 4)
       = Inl (Error ''Exporting country at rank 4 not found'')
   \<and> supplierBuyerSlide sampleView (plain blankRenderers) (byCompany blankRenderers)
        (slides (slideStructure.supplierBuyer defineSlideStructure) ! 5)
       = Inl (Error ''Supplier at rank 4 not found'')
   \<and> supplierBuyerSlide sampleView (plain blankRenderers) (byCompany blankRenderers)
        (slides (slideStructure.supplierBuyer defineSlideStructure) ! 16)
       = Inl (Error ''Importer at rank 4 not found'')
   \<and> map slide.id' (projr (sectionOf (orchestratorSections blankRenderers sampleView)
          ImportingCountries
          (take 3 (slides (slideStructure.importingCountries defineSlideStructure)))))
       = [9, 10, 11]
   \<and> slides (slideStructure.importingCountries defineSlideStructure) ! 3
       \<in> set (entriesOf defineSlideStructure ImportingCountries)
   \<and> isl (sectionOf (orchestratorSections blankRenderers sampleView) ImportingCountries
        (entriesOf defineSlideStructure ImportingCountries))
   \<and> sectionOf (orchestratorSections blankRenderers sampleView) ImportingCountries
        (entriesOf defineSlideStructure ImportingCountries)
       = Inl (Error ''Importing country at rank 4 not found'')
   \<and> earlier ImportingCountries = [Foundation]
   \<and> \<not> isl (sectionOf (orchestratorSections blankRenderers sampleView) Foundation
                (entriesOf defineSlideStructure Foundation))
   \<and> generateAllSlides (orchestratorSections blankRenderers sampleView) defineSlideStructure
       = Inl (Error ''Importing country at rank 4 not found'')
   \<and> isl (generateAllSlides (orchestratorSections blankRenderers sampleView)
          defineSlideStructure)
   \<and> ((\<exists>s. sectionOf (orchestratorSections blankRenderers sampleView) s
               (entriesOf defineSlideStructure s)
             = Inl (Error ''Importing country at rank 4 not found''))
        \<or> (\<exists>n. Error ''Importing country at rank 4 not found'' = structureDeviation n))
   \<and> \<not> success (generatePresentation (\<lambda>ss. [])
          (orchestratorSections blankRenderers sampleView) defineSlideStructure)
   \<and> outputFile (generatePresentation (\<lambda>ss. [])
          (orchestratorSections blankRenderers sampleView) defineSlideStructure) = None"
proof -
  let ?st = defineSlideStructure
  let ?secs = "orchestratorSections blankRenderers sampleView"
  let ?ds = "slides (slideStructure.importingCountries ?st)"
  let ?d = "?ds ! 3"
  let ?x = "slides (slideStructure.exportingCountries ?st) ! 4"
  let ?s = "slides (slideStructure.supplierBuyer ?st) ! 5"
  let ?b = "slides (slideStructure.supplierBuyer ?st) ! 16"
  let ?u = "slides (slideStructure.shipmentRecords ?st) ! 0"
  let ?e = "Error ''Importing country at rank 4 not found''"
  let ?gen = "slideOf blankRenderers sampleView ImportingCountries"
  let ?out = "map (\<lambda>d. projr (?gen d)) (take 3 ?ds)"
  note th = missing_rank_aborts_run [where r = blankRenderers and data = sampleView
      and st = ?st and exportToHTML = "\<lambda>ss. []"]
  \<comment> \<open>an entry of a kind that no dispatching section knows\<close>
  have ut: "slideDef.type ?u = ''shipment_records''"
    by (simp add: plan_entries plainSlide_def)
  have unknown: "foundationSlide (plain blankRenderers) ?u
        = Inl (Error ''Unknown slide type: shipment_records'')
      \<and> importingSlide sampleView (byCountry blankRenderers) ?u
        = Inl (Error ''Unknown slide type: shipment_records'')
      \<and> exportingSlide sampleView (plain blankRenderers) (byCountry blankRenderers) ?u
        = Inl (Error ''Unknown slide type: shipment_records'')
      \<and> supplierBuyerSlide sampleView (plain blankRenderers) (byCompany blankRenderers) ?u
        = Inl (Error ''Unknown slide type: shipment_records'')
      \<and> pricingSlide (plain blankRenderers) ?u
        = Inl (Error ''Unknown slide type: shipment_records'')"
    using th [where d = ?u] by (simp add: ut foundationTypes_def)
  \<comment> \<open>the four entries of rank 4, on lists of three\<close>
  have d: "?d = (plainSlide 12 ''importing_country_suppliers''
          (''Top '' @ showInt 4
           @ '' Importing country- Who are the top 10 suppliers countries''))
        \<lparr> countryRank := Some 4 \<rparr>"
    using importing_plan_nth(1) [of 3] by simp
  have m: "?gen ?d = Inl ?e"
    using th [where d = ?d]
    by (simp add: d plainSlide_def sample_rank_missing rank4_text)
  have mx: "exportingSlide sampleView (plain blankRenderers) (byCountry blankRenderers) ?x
              = Inl (Error ''Exporting country at rank 4 not found'')"
    using th [where d = ?x]
    by (simp add: plan_entries plainSlide_def sample_ranks_missing rank4_text)
  have ms: "supplierBuyerSlide sampleView (plain blankRenderers) (byCompany blankRenderers) ?s
              = Inl (Error ''Supplier at rank 4 not found'')"
    using th [where d = ?s]
    by (simp add: plan_entries plainSlide_def sample_ranks_missing rank4_text)
  have mb: "supplierBuyerSlide sampleView (plain blankRenderers) (byCompany blankRenderers) ?b
              = Inl (Error ''Importer at rank 4 not found'')"
    using th [where d = ?b]
    by (simp add: plan_entries plainSlide_def sample_ranks_missing rank4_text)
  \<comment> \<open>the importing section: three slides, then the failure\<close>
  have len: "length ?ds = 15"
    by (simp add: defineSlideStructure_def)
  have split: "?ds = take 3 ?ds @ ?d # drop 4 ?ds"
    using id_take_nth_drop [of 3 ?ds] len by simp
  have pre_ok: "\<forall>x \<in> set (take 3 ?ds). \<not> isl (?gen x)"
  proof
    fix x assume "x \<in> set (take 3 ?ds)"
    then obtain i where i: "i < 3" and x: "x = ?ds ! i"
      using len by (auto simp: in_set_conv_nth)
    from i have xi: "x = (plainSlide (9 + int i) ''importing_country_suppliers''
          (''Top '' @ showInt (int i + 1)
           @ '' Importing country- Who are the top 10 suppliers countries''))
        \<lparr> countryRank := Some (int i + 1) \<rparr>"
      unfolding x using importing_plan_nth(1) [of i] by simp
    from i have "atRank (geography.importingCountries (processedData.geography sampleView))
                   (Some (int i + 1)) \<noteq> None"
      by (intro sample_rank_found) simp_all
    then show "\<not> isl (?gen x)"
      by (auto simp: xi plainSlide_def importingSlide_def blankRenderers_def
          generateImportingCountrySuppliersSlide_def blankRender_def)
  qed
  have pre: "sectionOf ?secs ImportingCountries (take 3 ?ds) = Inr ?out"
    unfolding sectionOf_orchestrator by (rule generateEach_all_ok [OF pre_ok])
  have pre_ids: "map slideDef.id' (take 3 ?ds) = [9, 10, 11]"
    by (simp add: defineSlideStructure_def plainSlide_def take_map upt_rec)
  have "map slide.id' ?out = [9, 10, 11]"
    using th [where sec = ImportingCountries and ds = "take 3 ?ds" and out = ?out] pre pre_ids
    by simp
  then have ids: "map slide.id' (projr (sectionOf ?secs ImportingCountries (take 3 ?ds)))
                    = [9, 10, 11]"
    by (simp only: pre sum.sel)
  have mem: "?d \<in> set (entriesOf ?st ImportingCountries)"
    using len by (simp del: slideOf.simps) 
  have fails: "isl (sectionOf ?secs ImportingCountries (entriesOf ?st ImportingCountries))"
    using th [where sec = ImportingCountries and d = ?d
        and ds = "entriesOf ?st ImportingCountries"] mem m
    by simp
  have sec: "sectionOf ?secs ImportingCountries (entriesOf ?st ImportingCountries) = Inl ?e"
    using th [where sec = ImportingCountries and d = ?d and pre = "take 3 ?ds" and out = ?out
        and e = ?e and post = "drop 4 ?ds"] pre m split
    by simp
  have first: "\<forall>s \<in> set (earlier ImportingCountries).
                 \<not> isl (sectionOf ?secs s (entriesOf ?st s))"
    using foundation_blank_ok by simp
  have run: "generateAllSlides ?secs ?st = Inl ?e"
    using th [where sec = ImportingCountries and secs = ?secs and e = ?e] first sec
    by simp
  have runs: "isl (generateAllSlides ?secs ?st)"
    using th [where sec = ImportingCountries and secs = ?secs] fails
    by simp
  have src: "(\<exists>s. sectionOf ?secs s (entriesOf ?st s) = Inl ?e)
             \<or> (\<exists>n. ?e = structureDeviation n)"
    using th [where secs = ?secs and e = ?e] run
    by simp
  have out: "\<not> success (generatePresentation (\<lambda>ss. []) ?secs ?st)
             \<and> outputFile (generatePresentation (\<lambda>ss. []) ?secs ?st) = None"
    using th [where sec = ImportingCountries and d = ?d] mem m
    by simp
  have m': "importingSlide sampleView (byCountry blankRenderers) ?d = Inl ?e"
    using m by simp
  have e: "earlier ImportingCountries = [Foundation]"
    by simp
  from unknown m' mx ms mb ids mem fails sec e foundation_blank_ok run runs src out
  show ?thesis
    by (elim conjE) (intro conjI; assumption)
qed


end
